theory Spec2Isabelle
  imports Main "HOL-Library.Word" "HOL-Library.Sublist"
begin

unbundle bit_operations_syntax

section \<open>JavaScript values\<close>

text \<open>
  The request bodies, template data and error objects of the service are untyped
  JavaScript values. Numbers are restricted to integers small enough to print in
  plain decimal; strings are sequences of code units below 256. An object is the list
  of its own enumerable properties in enumeration order; it is a plain object, with
  \<open>Object.prototype\<close> as its prototype and no conversion to a string of its own.
\<close>

datatype js_value =
    JUndefined
  | JNull
  | JBool bool
  | JNum int
  | JStr string
  | JArr "js_value list"
  | JObj "(string \<times> js_value) list"

text \<open>Truthiness, as \<open>if (v)\<close>, \<open>!v\<close> and \<open>a || b\<close> read it.\<close>

fun truthy :: "js_value \<Rightarrow> bool" where
  "truthy JUndefined = False"
| "truthy JNull = False"
| "truthy (JBool b) = b"
| "truthy (JNum n) = (n \<noteq> 0)"
| "truthy (JStr s) = (s \<noteq> [])"
| "truthy (JArr xs) = True"
| "truthy (JObj ps) = True"

text \<open>An optional string field: absent, or a string that is falsy when empty.\<close>

definition truthy_str :: "string option \<Rightarrow> bool" where
  "truthy_str f = (case f of None \<Rightarrow> False | Some s \<Rightarrow> s \<noteq> [])"

definition or_else :: "string option \<Rightarrow> string \<Rightarrow> string" where
  "or_else f d = (case f of None \<Rightarrow> d | Some s \<Rightarrow> if s = [] then d else s)"

subsection \<open>Number to string\<close>

definition digit_char :: "nat \<Rightarrow> char" where
  "digit_char d = ''0123456789abcdefghijklmnopqrstuvwxyz'' ! (d mod 36)"

function to_digits :: "nat \<Rightarrow> nat \<Rightarrow> string" where
  "to_digits b n =
     (if b < 2 \<or> n < b then [digit_char n]
      else to_digits b (n div b) @ [digit_char (n mod b)])"
  by pat_completeness auto
termination
  by (relation "measure (\<lambda>(b, n). n)") auto

declare to_digits.simps [simp del]

definition nat_toString :: "nat \<Rightarrow> string" where
  "nat_toString n = to_digits 10 n"

definition int_toString :: "int \<Rightarrow> string" where
  "int_toString i = (if i < 0 then CHR ''-'' # nat_toString (nat (- i)) else nat_toString (nat i))"

fun intercalate :: "string \<Rightarrow> string list \<Rightarrow> string" where
  "intercalate sep [] = []"
| "intercalate sep [x] = x"
| "intercalate sep (x # y # ys) = x @ sep @ intercalate sep (y # ys)"

text \<open>\<open>String(v)\<close>: an array joins its elements with commas, null and undefined
  elements giving the empty string; a plain object gives \<open>[object Object]\<close>.\<close>

fun js_String :: "js_value \<Rightarrow> string" where
  "js_String JUndefined = ''undefined''"
| "js_String JNull = ''null''"
| "js_String (JBool b) = (if b then ''true'' else ''false'')"
| "js_String (JNum n) = int_toString n"
| "js_String (JStr s) = s"
| "js_String (JArr xs) =
     intercalate '','' (map (\<lambda>x. if x = JUndefined \<or> x = JNull then [] else js_String x) xs)"
| "js_String (JObj ps) = ''[object Object]''"


section \<open>Legacy plain-substitution renderer\<close>

text \<open>
  \<open>renderTemplate(input, vars)\<close> of the template utilities replaces every match of
  \<open>/\{\{\s*(\w+)\s*\}\}/g\<close>. The three character classes and the closing brace are
  pairwise disjoint, so the greedy scan below is what the backtracking matcher finds.
\<close>

definition is_space :: "char \<Rightarrow> bool" where
  "is_space c = (let n = (of_char c :: nat) in (9 \<le> n \<and> n \<le> 13) \<or> n = 32 \<or> n = 160)"

definition is_word :: "char \<Rightarrow> bool" where
  "is_word c = (let n = (of_char c :: nat) in
     (48 \<le> n \<and> n \<le> 57) \<or> (65 \<le> n \<and> n \<le> 90) \<or> n = 95 \<or> (97 \<le> n \<and> n \<le> 122))"

text \<open>A match anchored at the head of the string: the captured key and the rest.\<close>

definition match_placeholder :: "string \<Rightarrow> (string \<times> string) option" where
  "match_placeholder s =
     (case s of
        c1 # c2 # r \<Rightarrow>
          if c1 = CHR ''{'' \<and> c2 = CHR ''{'' then
            (let r1 = dropWhile is_space r;
                 key = takeWhile is_word r1;
                 r2 = dropWhile is_space (dropWhile is_word r1)
             in if key = [] then None
                else (case r2 of
                        d1 # d2 # rest \<Rightarrow>
                          if d1 = CHR ''}'' \<and> d2 = CHR ''}'' then Some (key, rest) else None
                      | _ \<Rightarrow> None))
          else None
      | _ \<Rightarrow> None)"

lemma match_placeholder_shorter:
  "match_placeholder s = Some (key, rest) \<Longrightarrow> length rest < length s"
proof -
  assume m: "match_placeholder s = Some (key, rest)"
  then obtain r where s: "s = CHR ''{'' # CHR ''{'' # r"
    by (auto simp: match_placeholder_def split: list.splits if_splits)
  let ?r2 = "dropWhile is_space (dropWhile is_word (dropWhile is_space r))"
  from m s have "?r2 = CHR ''}'' # CHR ''}'' # rest"
    by (auto simp: match_placeholder_def Let_def split: list.splits if_splits)
  then have "length rest < length ?r2" by simp
  also have "length ?r2 \<le> length r"
    by (meson length_dropWhile_le order_trans)
  finally show ?thesis using s by simp
qed

function replace_placeholders :: "(string \<Rightarrow> string) \<Rightarrow> string \<Rightarrow> string" where
  "replace_placeholders f [] = []"
| "replace_placeholders f (c # cs) =
     (case match_placeholder (c # cs) of
        Some (key, rest) \<Rightarrow> f key @ replace_placeholders f rest
      | None \<Rightarrow> c # replace_placeholders f cs)"
  by pat_completeness auto
termination
  by (relation "measure (\<lambda>(f, s). length s)") (auto dest: match_placeholder_shorter)

text \<open>
  The variables object is an ordinary object, as the body parser builds them, given by
  its own properties. The lookup \<open>vars[key]\<close> reads the own property of that name;
  for a name the object does not own it reads the property that every ordinary object
  inherits from \<open>Object.prototype\<close>: \<open>constructor\<close>, which is the function
  \<open>Object\<close>, ten methods, and \<open>__proto__\<close>, which is the prototype object itself.
  Only a name that is neither owned nor inherited gives \<open>undefined\<close>.
\<close>

datatype property =
    Data js_value
  | Native_function string
  | Prototype_object

definition inherited_functions :: "string list" where
  "inherited_functions =
     [''__defineGetter__'', ''__defineSetter__'', ''hasOwnProperty'', ''__lookupGetter__'',
      ''__lookupSetter__'', ''isPrototypeOf'', ''propertyIsEnumerable'', ''toString'',
      ''valueOf'', ''toLocaleString'']"

definition inherited :: "string \<Rightarrow> property" where
  "inherited key =
     (if key = ''constructor'' then Native_function ''Object''
      else if key \<in> set inherited_functions then Native_function key
      else if key = ''__proto__'' then Prototype_object
      else Data JUndefined)"

definition get_property :: "(string \<rightharpoonup> js_value) \<Rightarrow> string \<Rightarrow> property" where
  "get_property vars key = (case vars key of Some val \<Rightarrow> Data val | None \<Rightarrow> inherited key)"

text \<open>\<open>String(val)\<close> of what the lookup gives: a built-in function prints as
  \<open>function name() { [native code] }\<close>, the prototype object as any plain object.\<close>

fun property_String :: "property \<Rightarrow> string" where
  "property_String (Data val) = js_String val"
| "property_String (Native_function name) = ''function '' @ name @ ''() { [native code] }''"
| "property_String Prototype_object = ''[object Object]''"

text \<open>The replacer callback:
  \<open>const val = vars[key]; return val === undefined || val === null ? '' : String(val)\<close>.\<close>

definition substitute :: "(string \<rightharpoonup> js_value) \<Rightarrow> string \<Rightarrow> string" where
  "substitute vars key =
     (let val = get_property vars key
      in if val = Data JUndefined \<or> val = Data JNull then [] else property_String val)"

definition renderTemplate :: "string option \<Rightarrow> (string \<rightharpoonup> js_value) option \<Rightarrow> string" where
  "renderTemplate input vars =
     (case input of
        None \<Rightarrow> []
      | Some s \<Rightarrow>
          if s = [] then []
          else (case vars of
                  None \<Rightarrow> s
                | Some v \<Rightarrow> replace_placeholders (substitute v) s))"





section \<open>Template renderer\<close>

subsection \<open>Serialisation and the data fingerprint\<close>

text \<open>\<open>JSON.stringify\<close> on the values above. At top level \<open>undefined\<close> has no
  serialisation; inside an array it is written \<open>null\<close>, and an object property whose
  value is \<open>undefined\<close> is left out. Properties are written in enumeration order.\<close>

definition json_escape_char :: "char \<Rightarrow> string" where
  "json_escape_char c =
     (let n = (of_char c :: nat) in
      if c = CHR 0x22 then [CHR 0x5C, CHR 0x22]
      else if c = CHR 0x5C then [CHR 0x5C, CHR 0x5C]
      else if n = 8 then [CHR 0x5C, CHR ''b'']
      else if n = 12 then [CHR 0x5C, CHR ''f'']
      else if n = 10 then [CHR 0x5C, CHR ''n'']
      else if n = 13 then [CHR 0x5C, CHR ''r'']
      else if n = 9 then [CHR 0x5C, CHR ''t'']
      else if n < 32 then [CHR 0x5C, CHR ''u'', CHR ''0'', CHR ''0'', digit_char (n div 16), digit_char (n mod 16)]
      else [c])"

definition json_quote :: "string \<Rightarrow> string" where
  "json_quote s = CHR 0x22 # concat (map json_escape_char s) @ [CHR 0x22]"

fun JSON_stringify :: "js_value \<Rightarrow> string option"
  and stringify_elements :: "js_value list \<Rightarrow> string list"
  and stringify_properties :: "(string \<times> js_value) list \<Rightarrow> string list"
where
  "JSON_stringify JUndefined = None"
| "JSON_stringify JNull = Some ''null''"
| "JSON_stringify (JBool b) = Some (if b then ''true'' else ''false'')"
| "JSON_stringify (JNum n) = Some (int_toString n)"
| "JSON_stringify (JStr s) = Some (json_quote s)"
| "JSON_stringify (JArr xs) = Some (''['' @ intercalate '','' (stringify_elements xs) @ '']'')"
| "JSON_stringify (JObj ps) = Some (''{'' @ intercalate '','' (stringify_properties ps) @ ''}'')"
| "stringify_elements [] = []"
| "stringify_elements (x # xs) =
     (case JSON_stringify x of None \<Rightarrow> ''null'' | Some s \<Rightarrow> s) # stringify_elements xs"
| "stringify_properties [] = []"
| "stringify_properties (p # ps) =
     (case JSON_stringify (snd p) of
        None \<Rightarrow> stringify_properties ps
      | Some s \<Rightarrow> (json_quote (fst p) @ '':'' @ s) # stringify_properties ps)"

text \<open>
  \<open>generateDataHash\<close>: \<open>hash = ((hash << 5) - hash) + char; hash = hash & hash\<close> over
  the code units of the serialisation, then \<open>Math.abs(hash).toString(36)\<close>. The
  value is a 32-bit integer after every round, so the round is word arithmetic.
  Serialising \<open>undefined\<close> gives no string and reading its length throws.
\<close>

definition hash_step :: "32 word \<Rightarrow> char \<Rightarrow> 32 word" where
  "hash_step hash c = (let h = (push_bit 5 hash - hash) + of_nat (of_char c) in h AND h)"

definition hash_string :: "string \<Rightarrow> string" where
  "hash_string dataStr = to_digits 36 (nat \<bar>sint (foldl hash_step 0 dataStr)\<bar>)"

definition generateDataHash :: "js_value \<Rightarrow> string option" where
  "generateDataHash data = map_option hash_string (JSON_stringify data)"

definition getCacheKey :: "string \<Rightarrow> nat \<Rightarrow> string \<Rightarrow> string" where
  "getCacheKey templateId version dataHash =
     ''template_'' @ templateId @ ''_v'' @ nat_toString version @ ''_'' @ dataHash"

subsection \<open>Records\<close>

datatype engine = Handlebars | Mjml

record RenderResult =
  html :: string
  text_part :: string
  subject :: string

text \<open>A template row as the renderer and the resolver see it. The identifiers are the
  decimal strings of the store's serial numbers. The two timestamp columns are left out.\<close>

record TemplateRecord =
  template_id :: string
  tenant_id :: string
  name :: string
  slug :: string
  engine :: engine
  content :: string
  subject_template :: string
  plaintext_template :: "string option"
  version :: nat
  is_active :: bool

subsection \<open>Render cache\<close>

text \<open>
  The in-process store of the renderer, with a standard time to live of 3600 seconds:
  a key holds a value and the time (in milliseconds) after which it has expired.
  \<open>get\<close> drops an expired entry and reports a miss; \<open>set\<close> stamps the entry with the
  current time plus the time to live; \<open>keys\<close> are all keys held.
\<close>

type_synonym render_cache = "string \<rightharpoonup> (RenderResult \<times> nat)"

definition stdTTL_ms :: nat where
  "stdTTL_ms = 3600 * 1000"

definition cache_get :: "nat \<Rightarrow> render_cache \<Rightarrow> string \<Rightarrow> RenderResult option \<times> render_cache" where
  "cache_get now c k =
     (case c k of
        None \<Rightarrow> (None, c)
      | Some (v, t) \<Rightarrow> if t < now then (None, c(k := None)) else (Some v, c))"

definition cache_set :: "nat \<Rightarrow> render_cache \<Rightarrow> string \<Rightarrow> RenderResult \<Rightarrow> render_cache" where
  "cache_set now c k v = c(k \<mapsto> (v, now + stdTTL_ms))"

definition invalidateTemplateCache :: "render_cache \<Rightarrow> string \<Rightarrow> render_cache" where
  "invalidateTemplateCache c templateId =
     (\<lambda>key. if prefix (''template_'' @ templateId @ ''_'') key then None else c key)"

definition clearCache :: "render_cache \<Rightarrow> render_cache" where
  "clearCache c = Map.empty"

subsection \<open>Rendering\<close>

text \<open>
  The libraries the renderer calls are parameters: each is a function of its input
  that gives \<open>None\<close> where the library throws (for the sanitiser, also where it is not
  available). The renderer state is the cache and a count of the calls made to the
  template compiler.
\<close>

record libs =
  handlebars :: "string \<Rightarrow> js_value \<Rightarrow> string option"
  mjml2html :: "string \<Rightarrow> string option"
  juice :: "string \<Rightarrow> string option"
  sanitize :: "string \<Rightarrow> string option"
  htmlToText :: "string \<Rightarrow> string option"

record renderer =
  cache :: render_cache
  compiles :: nat

datatype render_error = RenderFailed

definition compileTemplate ::
  "libs \<Rightarrow> renderer \<Rightarrow> string \<Rightarrow> js_value \<Rightarrow> string option \<times> renderer" where
  "compileTemplate L st template data =
     (handlebars L template data, st\<lparr>compiles := compiles st + 1\<rparr>)"

definition processMjml :: "libs \<Rightarrow> string \<Rightarrow> string option" where
  "processMjml L mjmlContent = mjml2html L mjmlContent"

definition inlineCss :: "libs \<Rightarrow> string \<Rightarrow> string" where
  "inlineCss L h = (case juice L h of Some r \<Rightarrow> r | None \<Rightarrow> h)"

definition sanitizeHtml :: "libs \<Rightarrow> string \<Rightarrow> string" where
  "sanitizeHtml L h = (case sanitize L h of Some r \<Rightarrow> r | None \<Rightarrow> h)"

definition generatePlainText ::
  "libs \<Rightarrow> renderer \<Rightarrow> string \<Rightarrow> string option \<Rightarrow> js_value \<Rightarrow> string \<times> renderer" where
  "generatePlainText L st h plaintextTemplate data =
     (let auto_text = (case htmlToText L h of Some t \<Rightarrow> t | None \<Rightarrow> [])
      in case plaintextTemplate of
           None \<Rightarrow> (auto_text, st)
         | Some pt \<Rightarrow>
             if pt \<noteq> [] \<and> truthy data then
               (case handlebars L pt data of
                  Some t \<Rightarrow> (t, st\<lparr>compiles := compiles st + 1\<rparr>)
                | None \<Rightarrow> (auto_text, st\<lparr>compiles := compiles st + 1\<rparr>))
             else (auto_text, st))"

definition TemplateRenderer_renderTemplate ::
  "libs \<Rightarrow> nat \<Rightarrow> renderer \<Rightarrow> TemplateRecord \<Rightarrow> js_value \<Rightarrow> nat option
     \<Rightarrow> (render_error + RenderResult) \<times> renderer" where
  "TemplateRenderer_renderTemplate L now st templateRecord data version_arg =
     (let templateVersion =
            (case version_arg of
               Some v \<Rightarrow> if v \<noteq> 0 then v else version templateRecord
             | None \<Rightarrow> version templateRecord)
      in case generateDataHash data of
           None \<Rightarrow> (Inl RenderFailed, st)
         | Some dataHash \<Rightarrow>
             (let cacheKey = getCacheKey (template_id templateRecord) templateVersion dataHash;
                  (cached, c1) = cache_get now (cache st) cacheKey;
                  st1 = st\<lparr>cache := c1\<rparr>
              in case cached of
                   Some r \<Rightarrow> (Inr r, st1)
                 | None \<Rightarrow>
                     (case compileTemplate L st1 (subject_template templateRecord) data of
                        (None, st2) \<Rightarrow> (Inl RenderFailed, st2)
                      | (Some renderedSubject, st2) \<Rightarrow>
                          (case compileTemplate L st2 (content templateRecord) data of
                             (None, st3) \<Rightarrow> (Inl RenderFailed, st3)
                           | (Some compiled, st3) \<Rightarrow>
                               (case (if engine templateRecord = Mjml
                                      then processMjml L compiled else Some compiled) of
                                  None \<Rightarrow> (Inl RenderFailed, st3)
                                | Some processed \<Rightarrow>
                                    (let renderedContent = sanitizeHtml L (inlineCss L processed);
                                         (renderedText, st4) =
                                            generatePlainText L st3 renderedContent
                                              (plaintext_template templateRecord) data;
                                         result = \<lparr>html = renderedContent,
                                                   text_part = renderedText,
                                                   subject = renderedSubject\<rparr>
                                     in (Inr result,
                                         st4\<lparr>cache := cache_set now (cache st4) cacheKey result\<rparr>)))))))"

text \<open>The key under which a render of this record and data is cached, and whether an
  entry has not expired at a given time.\<close>

definition cache_key_of :: "TemplateRecord \<Rightarrow> js_value \<Rightarrow> nat option \<Rightarrow> string option" where
  "cache_key_of templateRecord data version_arg =
     map_option
       (getCacheKey (template_id templateRecord)
          (case version_arg of
             Some v \<Rightarrow> if v \<noteq> 0 then v else version templateRecord
           | None \<Rightarrow> version templateRecord))
       (generateDataHash data)"

definition live_at :: "nat \<Rightarrow> render_cache \<Rightarrow> string \<Rightarrow> bool" where
  "live_at now c k = (case c k of Some (v, t) \<Rightarrow> now \<le> t | None \<Rightarrow> False)"

text \<open>Two objects with the same properties, whatever their order.\<close>

definition same_properties :: "js_value \<Rightarrow> js_value \<Rightarrow> bool" where
  "same_properties d1 d2 =
     (case (d1, d2) of
        (JObj ps, JObj qs) \<Rightarrow>
          distinct (map fst ps) \<and> distinct (map fst qs) \<and> set ps = set qs
      | _ \<Rightarrow> False)"

text \<open>The number a string of decimal digits stands for.\<close>

definition digits_value :: "string \<Rightarrow> nat" where
  "digits_value s = foldl (\<lambda>a c. 10 * a + (of_char c - 48)) 0 s"



text \<open>A stand-in set of libraries for concrete runs: each returns its input.\<close>

definition plain_libs :: libs where
  "plain_libs = \<lparr>handlebars = (\<lambda>t d. Some t), mjml2html = Some, juice = Some,
                  sanitize = Some, htmlToText = Some\<rparr>"

definition failing_libs :: libs where
  "failing_libs = \<lparr>handlebars = (\<lambda>t d. None), mjml2html = Some, juice = Some,
                    sanitize = Some, htmlToText = Some\<rparr>"

definition sample_template :: TemplateRecord where
  "sample_template = \<lparr>template_id = ''1'', tenant_id = ''1'', name = ''Test Template'',
       slug = ''test-template'', engine = Handlebars, content = ''<div>Hello</div>'',
       subject_template = ''Hello'', plaintext_template = None, version = 1,
       is_active = True\<rparr>"

section \<open>Errors\<close>

text \<open>An error object thrown by the mail transport: its \<open>code\<close>, \<open>responseCode\<close> and
  \<open>message\<close> properties.\<close>

record send_error =
  code :: js_value
  responseCode :: js_value
  message :: js_value

text \<open>What a handler passes to \<open>next\<close>: an application error with its message and
  status code, a plain \<open>Error\<close> or \<open>TypeError\<close> with its message, or the error of
  the transport.\<close>

datatype error =
    AppError string nat
  | Error string
  | TypeError string
  | TransportError send_error

section \<open>Template store\<close>

text \<open>The table \<open>tenant_templates\<close> is the list of its rows, with the next value of
  the serial \<open>id\<close> column.\<close>

record template_store =
  templates :: "TemplateRecord list"
  next_template_id :: nat

text \<open>\<open>WHERE tenant_id = $1 AND slug = $2 AND is_active = true\<close>\<close>

definition active_matches :: "TemplateRecord list \<Rightarrow> string \<Rightarrow> string \<Rightarrow> TemplateRecord list" where
  "active_matches rows tenantId s =
     filter (\<lambda>r. tenant_id r = tenantId \<and> slug r = s \<and> is_active r) rows"

text \<open>\<open>ORDER BY version DESC LIMIT 1\<close>\<close>

fun highest_version :: "TemplateRecord list \<Rightarrow> TemplateRecord option" where
  "highest_version [] = None"
| "highest_version (r # rs) =
     (case highest_version rs of
        None \<Rightarrow> Some r
      | Some m \<Rightarrow> if version r < version m then Some m else Some r)"

text \<open>\<open>resolveTemplate\<close> of the send controller. The test \<open>if (version)\<close> takes the
  version as given when it is a number other than 0.\<close>

definition resolveTemplate ::
  "TemplateRecord list \<Rightarrow> string \<Rightarrow> string \<Rightarrow> nat option \<Rightarrow> TemplateRecord option" where
  "resolveTemplate rows tenantId s version_arg =
     (case version_arg of
        Some v \<Rightarrow>
          if v \<noteq> 0
          then highest_version (filter (\<lambda>r. version r = v) (active_matches rows tenantId s))
          else highest_version (active_matches rows tenantId s)
      | None \<Rightarrow> highest_version (active_matches rows tenantId s))"

text \<open>\<open>getTemplate\<close> of the template controller: the same filter; with a version the
  first matching row is returned, without one the row of highest version.\<close>

definition getTemplate ::
  "TemplateRecord list \<Rightarrow> string \<Rightarrow> string \<Rightarrow> nat option \<Rightarrow> error + TemplateRecord" where
  "getTemplate rows tenantId s version_arg =
     (let result_rows =
            (case version_arg of
               Some v \<Rightarrow>
                 if v \<noteq> 0
                 then filter (\<lambda>r. version r = v) (active_matches rows tenantId s)
                 else (case highest_version (active_matches rows tenantId s) of
                         None \<Rightarrow> [] | Some r \<Rightarrow> [r])
             | None \<Rightarrow>
                 (case highest_version (active_matches rows tenantId s) of
                    None \<Rightarrow> [] | Some r \<Rightarrow> [r]))
      in case result_rows of
           [] \<Rightarrow> Inl (AppError ''Template not found'' 404)
         | r # _ \<Rightarrow> Inr r)"

subsection \<open>Updating a template\<close>

record UpdateTemplateRequest =
  name_upd :: "string option"
  engine_upd :: "string option"
  content_upd :: "string option"
  subjectTemplate :: "string option"
  plaintextTemplate :: "string option"
  isActive :: "bool option"

definition parse_engine :: "string \<Rightarrow> engine option" where
  "parse_engine e =
     (if e = ''handlebars'' then Some Handlebars
      else if e = ''mjml'' then Some Mjml else None)"

text \<open>The checks made while the update list is built, in the order of the source.\<close>

definition validate_update :: "UpdateTemplateRequest \<Rightarrow> error option" where
  "validate_update updates =
     (if (case engine_upd updates of Some e \<Rightarrow> parse_engine e = None | None \<Rightarrow> False)
      then Some (AppError ''Engine must be \"handlebars\" or \"mjml\"'' 400)
      else if (case content_upd updates of Some c \<Rightarrow> length c > 10240 | None \<Rightarrow> False)
      then Some (AppError ''Content exceeds 10KB limit'' 400)
      else if (case subjectTemplate updates of Some s \<Rightarrow> length s > 500 | None \<Rightarrow> False)
      then Some (AppError ''Subject template exceeds 500 character limit'' 400)
      else if (case plaintextTemplate updates of Some p \<Rightarrow> length p > 10240 | None \<Rightarrow> False)
      then Some (AppError ''Plaintext template exceeds 10KB limit'' 400)
      else if name_upd updates = None \<and> engine_upd updates = None \<and> content_upd updates = None
              \<and> subjectTemplate updates = None \<and> plaintextTemplate updates = None
              \<and> isActive updates = None
      then Some (AppError ''No valid updates provided'' 400)
      else None)"

text \<open>\<open>SELECT COALESCE(MAX(version), 0) + 1 ... WHERE tenant_id = $1 AND slug = $2\<close>\<close>

definition next_version :: "TemplateRecord list \<Rightarrow> string \<Rightarrow> string \<Rightarrow> nat" where
  "next_version rows tenantId s =
     foldr max (map version (filter (\<lambda>r. tenant_id r = tenantId \<and> slug r = s) rows)) 0 + 1"

text \<open>The row inserted when content or engine is updated.\<close>

definition new_version_row ::
  "TemplateRecord \<Rightarrow> UpdateTemplateRequest \<Rightarrow> nat \<Rightarrow> nat \<Rightarrow> TemplateRecord" where
  "new_version_row currentTemplate updates new_id nextVersion =
     \<lparr>template_id = nat_toString new_id,
      tenant_id = tenant_id currentTemplate,
      name = or_else (name_upd updates) (name currentTemplate),
      slug = slug currentTemplate,
      engine = (case engine_upd updates of
                  Some e \<Rightarrow> (case parse_engine e of Some g \<Rightarrow> g | None \<Rightarrow> engine currentTemplate)
                | None \<Rightarrow> engine currentTemplate),
      content = or_else (content_upd updates) (content currentTemplate),
      subject_template = or_else (subjectTemplate updates) (subject_template currentTemplate),
      plaintext_template = (case plaintextTemplate updates of
                              Some p \<Rightarrow> Some p
                            | None \<Rightarrow> plaintext_template currentTemplate),
      version = nextVersion,
      is_active = (case isActive updates of
                     Some a \<Rightarrow> a | None \<Rightarrow> is_active currentTemplate)\<rparr>"

text \<open>The \<open>UPDATE ... SET\<close> of the fields collected in the update list, on one row.\<close>

definition apply_update :: "UpdateTemplateRequest \<Rightarrow> TemplateRecord \<Rightarrow> TemplateRecord" where
  "apply_update updates r =
     r\<lparr>name := (case name_upd updates of Some n \<Rightarrow> n | None \<Rightarrow> name r),
       subject_template :=
         (case subjectTemplate updates of Some s \<Rightarrow> s | None \<Rightarrow> subject_template r),
       plaintext_template :=
         (case plaintextTemplate updates of
            Some p \<Rightarrow> if p = [] then None else Some p
          | None \<Rightarrow> plaintext_template r),
       is_active := (case isActive updates of Some a \<Rightarrow> a | None \<Rightarrow> is_active r)\<rparr>"

record update_result =
  store_after :: template_store
  cache_after :: render_cache
  versionCreated :: bool

definition updateTemplate ::
  "template_store \<Rightarrow> render_cache \<Rightarrow> nat \<Rightarrow> UpdateTemplateRequest \<Rightarrow> error + update_result" where
  "updateTemplate db c templateId updates =
     (case find (\<lambda>r. template_id r = nat_toString templateId) (templates db) of
        None \<Rightarrow> Inl (AppError ''Template not found'' 404)
      | Some currentTemplate \<Rightarrow>
          (case validate_update updates of
             Some e \<Rightarrow> Inl e
           | None \<Rightarrow>
               if content_upd updates \<noteq> None \<or> engine_upd updates \<noteq> None then
                 (let nextVersion =
                        next_version (templates db) (tenant_id currentTemplate) (slug currentTemplate);
                      row = new_version_row currentTemplate updates (next_template_id db) nextVersion
                  in Inr \<lparr>store_after = \<lparr>templates = templates db @ [row],
                                           next_template_id = next_template_id db + 1\<rparr>,
                           cache_after = invalidateTemplateCache c (nat_toString templateId),
                           versionCreated = True\<rparr>)
               else
                 Inr \<lparr>store_after =
                        db\<lparr>templates :=
                             map (\<lambda>r. if template_id r = nat_toString templateId
                                       then apply_update updates r else r) (templates db)\<rparr>,
                      cache_after = c,
                      versionCreated = False\<rparr>))"

subsection \<open>Deleting a template\<close>

definition deleteTemplate ::
  "template_store \<Rightarrow> render_cache \<Rightarrow> nat \<Rightarrow> error + (template_store \<times> render_cache)" where
  "deleteTemplate db c templateId =
     (case find (\<lambda>r. template_id r = nat_toString templateId) (templates db) of
        None \<Rightarrow> Inl (AppError ''Template not found'' 404)
      | Some existingTemplate \<Rightarrow>
          Inr (db\<lparr>templates :=
                    map (\<lambda>r. if template_id r = nat_toString templateId
                              then r\<lparr>is_active := False\<rparr> else r) (templates db)\<rparr>,
               invalidateTemplateCache c (nat_toString templateId)))"

text \<open>A store holding the sample template, and two update requests: one that edits the
  content and one that edits the subject only.\<close>

definition sample_store :: template_store where
  "sample_store = \<lparr>templates = [sample_template], next_template_id = 2\<rparr>"

definition edit_content_request :: UpdateTemplateRequest where
  "edit_content_request = \<lparr>name_upd = None, engine_upd = None, content_upd = Some ''<p>New</p>'',
       subjectTemplate = None, plaintextTemplate = None, isActive = None\<rparr>"

definition edit_subject_request :: UpdateTemplateRequest where
  "edit_subject_request = \<lparr>name_upd = None, engine_upd = None, content_upd = None,
       subjectTemplate = Some ''Changed'', plaintextTemplate = None, isActive = None\<rparr>"

section \<open>Dispatch pipeline\<close>

subsection \<open>Log store\<close>

text \<open>
  Modelled from the spec: the log store and its transactions, which the controller
  reaches through a pooled database client (sections 4.4 and 6: \<open>insertLog\<close>,
  \<open>updateLogStatus\<close>, and the data changes of a failed delivery being rolled back).
  The table \<open>email_logs\<close> is the list of its rows. \<open>BEGIN\<close> keeps the rows as they
  are at that moment, \<open>ROLLBACK\<close> puts them back, \<open>COMMIT\<close> lets go of them;
  outside a transaction each statement takes effect at once. The serial \<open>id\<close>
  counter is not rolled back. The \<open>created_at\<close> column is left out.
\<close>

datatype log_status = Sending | Sent | Failed

record log_row =
  log_id :: nat
  log_tenant :: string
  to_address :: string
  log_subject :: string
  status :: log_status
  error_message :: "string option"
  sent_at :: bool

record log_store =
  log_rows :: "log_row list"
  open_txn :: "log_row list option"
  next_log_id :: nat

definition db_begin :: "log_store \<Rightarrow> log_store" where
  "db_begin db = (case open_txn db of None \<Rightarrow> db\<lparr>open_txn := Some (log_rows db)\<rparr> | Some saved \<Rightarrow> db)"

definition db_rollback :: "log_store \<Rightarrow> log_store" where
  "db_rollback db =
     (case open_txn db of None \<Rightarrow> db | Some saved \<Rightarrow> db\<lparr>log_rows := saved, open_txn := None\<rparr>)"

definition db_commit :: "log_store \<Rightarrow> log_store" where
  "db_commit db = db\<lparr>open_txn := None\<rparr>"

text \<open>\<open>INSERT INTO email_logs (tenant_id, to_address, subject, status) ... RETURNING id\<close>\<close>

definition insert_log :: "log_store \<Rightarrow> string \<Rightarrow> string \<Rightarrow> string \<Rightarrow> nat \<times> log_store" where
  "insert_log db tenantId toAddr subj =
     (next_log_id db,
      db\<lparr>log_rows := log_rows db @ [\<lparr>log_id = next_log_id db, log_tenant = tenantId,
                               to_address = toAddr, log_subject = subj, status = Sending,
                               error_message = None, sent_at = False\<rparr>],
         next_log_id := next_log_id db + 1\<rparr>)"

text \<open>\<open>UPDATE email_logs SET status = 'sent', sent_at = CURRENT_TIMESTAMP WHERE id = $2\<close>\<close>

definition mark_sent :: "log_store \<Rightarrow> nat \<Rightarrow> log_store" where
  "mark_sent db i =
     db\<lparr>log_rows := map (\<lambda>r. if log_id r = i then r\<lparr>status := Sent, sent_at := True\<rparr> else r) (log_rows db)\<rparr>"

text \<open>\<open>UPDATE email_logs SET status = 'failed', error_message = $2 WHERE id = $3\<close>\<close>

definition mark_failed :: "log_store \<Rightarrow> nat \<Rightarrow> string \<Rightarrow> log_store" where
  "mark_failed db i msg =
     db\<lparr>log_rows := map (\<lambda>r. if log_id r = i then r\<lparr>status := Failed, error_message := Some msg\<rparr>
                         else r) (log_rows db)\<rparr>"

subsection \<open>Requests, mail and the environment\<close>

text \<open>An address field is a string or an array of strings.\<close>

datatype addresses = One string | Many "string list"

definition truthy_addr :: "addresses option \<Rightarrow> bool" where
  "truthy_addr a = (case a of None \<Rightarrow> False | Some (One s) \<Rightarrow> s \<noteq> [] | Some (Many xs) \<Rightarrow> True)"

text \<open>\<open>Array.isArray(to) ? to : [to]\<close> for the recipient, and
  \<open>Array.isArray(cc) ? cc : (cc ? [cc] : [])\<close> for the copies.\<close>

definition to_list :: "addresses option \<Rightarrow> string list" where
  "to_list a = (case a of None \<Rightarrow> [] | Some (One s) \<Rightarrow> [s] | Some (Many xs) \<Rightarrow> xs)"

definition copy_list :: "addresses option \<Rightarrow> string list" where
  "copy_list a =
     (case a of None \<Rightarrow> [] | Some (One s) \<Rightarrow> if s \<noteq> [] then [s] else [] | Some (Many xs) \<Rightarrow> xs)"

definition join_addresses :: "string list \<Rightarrow> string" where
  "join_addresses xs = intercalate '', '' xs"

record overrides_fields =
  subject_ov :: "string option"
  htmlBody_ov :: "string option"
  textBody_ov :: "string option"

text \<open>The request body. Attachments, which the legacy branch copies into the mail
  unchanged, are left out.\<close>

record send_request =
  templateSlug :: "string option"
  templateData :: "js_value option"
  to_field :: "addresses option"
  from_field :: "string option"
  replyTo :: "string option"
  cc :: "addresses option"
  bcc :: "addresses option"
  version_field :: "nat option"
  overrides :: "overrides_fields option"
  subject_field :: "string option"
  htmlBody :: "string option"
  textBody :: "string option"
  variables :: "(string \<rightharpoonup> js_value) option"

text \<open>The tenant set by the authentication layer; its transport credentials and
  webhook address are left out.\<close>

record tenant =
  tenant_ident :: string
  from_email :: string

text \<open>The options handed to \<open>sendMail\<close>.\<close>

record mail =
  mail_from :: string
  mail_to :: string
  mail_cc :: "string option"
  mail_bcc :: "string option"
  mail_replyTo :: "string option"
  mail_subject :: string
  mail_html :: "string option"
  mail_text :: "string option"

text \<open>
  The environment of one dispatch: the two retry settings as \<open>parseInt\<close> reads them
  (3 and 500 when unset), whether the mail library loads, the outcome of the
  \<open>sendMail\<close> call made at each attempt (an error object or a message identifier),
  and the conversion \<open>Number(s)\<close> of a string, with \<open>None\<close> for \<open>NaN\<close>.
\<close>

record env =
  RETRY_MAX_ATTEMPTS :: int
  RETRY_BASE_DELAY_MS :: int
  nodemailer_available :: bool
  sendMail :: "nat \<Rightarrow> mail \<Rightarrow> send_error + string"
  string_to_number :: "string \<Rightarrow> int option"

text \<open>What a dispatch changes: the log store, the renderer, the mails handed to the
  transport and the delays slept, both in order. The webhook calls, which are fired
  and forgotten, and the log lines are left out.\<close>

record world =
  logs :: log_store
  rstate :: renderer
  sent_mail :: "mail list"
  sleeps :: "int list"

subsection \<open>Delivery with retry\<close>

definition transientCodes :: "string list" where
  "transientCodes = [''ETIMEDOUT'', ''ESOCKET'', ''ECONNRESET'', ''EAI_AGAIN'']"

text \<open>\<open>Number(v)\<close>: an array or object is converted through its string.\<close>

fun js_Number :: "(string \<Rightarrow> int option) \<Rightarrow> js_value \<Rightarrow> int option" where
  "js_Number f JUndefined = None"
| "js_Number f JNull = Some 0"
| "js_Number f (JBool b) = Some (if b then 1 else 0)"
| "js_Number f (JNum n) = Some n"
| "js_Number f (JStr s) = f s"
| "js_Number f (JArr xs) = f (js_String (JArr xs))"
| "js_Number f (JObj ps) = f (js_String (JObj ps))"

definition shouldRetry :: "env \<Rightarrow> send_error \<Rightarrow> bool" where
  "shouldRetry E err =
     (if code err \<in> JStr ` set transientCodes then True
      else (let rc = (if truthy (responseCode err) then responseCode err else code err)
            in truthy rc \<and> js_Number (string_to_number E) rc \<in> Some ` {421, 450, 451, 452}))"

text \<open>The loop \<open>for (let attempt = 1; attempt <= maxAttempts; attempt++)\<close>, from a given
  attempt on: it gives \<open>info\<close>, \<open>lastError\<close> and the world.\<close>

function send_with_retry ::
  "env \<Rightarrow> mail \<Rightarrow> nat \<Rightarrow> world \<Rightarrow> string option \<times> send_error option \<times> world" where
  "send_with_retry E mailOptions attempt w =
     (if int attempt \<le> RETRY_MAX_ATTEMPTS E then
        (let w1 = w\<lparr>sent_mail := sent_mail w @ [mailOptions]\<rparr>
         in case sendMail E attempt mailOptions of
              Inr info \<Rightarrow> (Some info, None, w1)
            | Inl err \<Rightarrow>
                if int attempt \<ge> RETRY_MAX_ATTEMPTS E \<or> \<not> shouldRetry E err
                then (None, Some err, w1)
                else send_with_retry E mailOptions (attempt + 1)
                       (w1\<lparr>sleeps := sleeps w1
                                      @ [RETRY_BASE_DELAY_MS E * 2 ^ (attempt - 1)]\<rparr>))
      else (None, None, w))"
  by pat_completeness auto
termination
  by (relation "measure (\<lambda>(E, m, attempt, w). nat (RETRY_MAX_ATTEMPTS E + 1 - int attempt))") auto

declare send_with_retry.simps [simp del]

text \<open>
  The steps the two branches of \<open>sendEmail\<close> share, word for word, once the mail is
  known: open the transaction, insert the log row, load the mail library, send with
  retry, throw the last error when nothing was sent, otherwise mark the row sent and
  commit; the log line after the commit reads \<open>info.messageId\<close>. The result comes
  with the identifier of the log row.
\<close>

definition deliver ::
  "env \<Rightarrow> string \<Rightarrow> mail \<Rightarrow> world \<Rightarrow> (error + string) \<times> nat option \<times> world" where
  "deliver E tenantId mailOptions w =
     (let (logId, db1) = insert_log (db_begin (logs w)) tenantId (mail_to mailOptions)
                           (mail_subject mailOptions);
          w1 = w\<lparr>logs := db1\<rparr>
      in if \<not> nodemailer_available E
         then (Inl (Error ''Email service unavailable''), Some logId, w1)
         else (case send_with_retry E mailOptions 1 w1 of
                 (None, Some lastError, w2) \<Rightarrow> (Inl (TransportError lastError), Some logId, w2)
               | (None, None, w2) \<Rightarrow>
                   (Inl (TypeError ''Cannot read properties of null (reading 'messageId')''), Some logId,
                    w2\<lparr>logs := db_commit (mark_sent (logs w2) logId)\<rparr>)
               | (Some mid, lastError, w2) \<Rightarrow>
                   (Inr mid, Some logId,
                    w2\<lparr>logs := db_commit (mark_sent (logs w2) logId)\<rparr>)))"

subsection \<open>Content\<close>

record email_content =
  content_subject :: string
  content_html :: string
  content_text :: string
  rendered :: bool
  fallback :: bool

text \<open>The legacy rendering of the raw content of the request.\<close>

definition legacy_content :: "send_request \<Rightarrow> email_content" where
  "legacy_content data =
     \<lparr>content_subject = or_else (subject_field data) ''Email'',
      content_html = (if truthy_str (htmlBody data)
                      then renderTemplate (htmlBody data) (variables data) else []),
      content_text = (if truthy_str (textBody data)
                      then renderTemplate (textBody data) (variables data) else []),
      rendered = False,
      fallback = False\<rparr>"

datatype send_mode = Legacy_mode | Template_mode

definition renderEmailContent ::
  "libs \<Rightarrow> nat \<Rightarrow> renderer \<Rightarrow> send_mode \<Rightarrow> send_request \<Rightarrow> TemplateRecord option
     \<Rightarrow> js_value option \<Rightarrow> email_content \<times> renderer" where
  "renderEmailContent L now st mode data templateRecord td =
     (case (mode, templateRecord, td) of
        (Template_mode, Some record, Some d) \<Rightarrow>
          if truthy d then
            (case TemplateRenderer_renderTemplate L now st record d None of
               (Inr r, st') \<Rightarrow>
                 (\<lparr>content_subject = subject r, content_html = html r,
                   content_text = text_part r, rendered = True, fallback = False\<rparr>, st')
             | (Inl e, st') \<Rightarrow> ((legacy_content data)\<lparr>fallback := True\<rparr>, st'))
          else (legacy_content data, st)
      | _ \<Rightarrow> (legacy_content data, st))"

subsection \<open>The send handler\<close>

record send_response =
  messageId :: string
  template_used :: "(string \<times> nat) option"

definition override :: "string option \<Rightarrow> string \<Rightarrow> string" where
  "override ov rendered_value = or_else ov rendered_value"

definition optional_list :: "string list \<Rightarrow> string option" where
  "optional_list xs = (if length xs > 0 then Some (join_addresses xs) else None)"

text \<open>The body of the \<open>try\<close> block: the result, the identifier of the log row if one
  was inserted, and the world.\<close>

definition send_body ::
  "env \<Rightarrow> libs \<Rightarrow> nat \<Rightarrow> TemplateRecord list \<Rightarrow> tenant option \<Rightarrow> send_request \<Rightarrow> world
     \<Rightarrow> (error + send_response) \<times> nat option \<times> world" where
  "send_body E L now tmpl tn body w =
     (if truthy_str (templateSlug body) then
        (if \<not> truthy_str (templateSlug body)
            \<or> \<not> (case templateData body of Some d \<Rightarrow> truthy d | None \<Rightarrow> False)
            \<or> \<not> truthy_addr (to_field body)
         then (Inl (AppError
                 ''Missing required fields for template mode: templateSlug, templateData, to''
                 400), None, w)
         else case tn of
           None \<Rightarrow> (Inl (AppError ''Tenant not found'' 401), None, w)
         | Some tenant \<Rightarrow>
             (case resolveTemplate tmpl (tenant_ident tenant) (or_else (templateSlug body) [])
                     (version_field body) of
                None \<Rightarrow>
                  (Inl (AppError (''Template not found: '' @ or_else (templateSlug body) []) 404),
                   None, w)
              | Some templateRecord \<Rightarrow>
                  (let (renderedContent, st') =
                         renderEmailContent L now (rstate w) Template_mode body
                           (Some templateRecord) (templateData body);
                       ov = (case overrides body of
                               None \<Rightarrow> \<lparr>subject_ov = None, htmlBody_ov = None, textBody_ov = None\<rparr>
                             | Some v \<Rightarrow> v);
                       finalSubject = override (subject_ov ov) (content_subject renderedContent);
                       finalHtml = override (htmlBody_ov ov) (content_html renderedContent);
                       finalText = override (textBody_ov ov) (content_text renderedContent);
                       mailOptions =
                         \<lparr>mail_from = or_else (from_field body) (from_email tenant),
                          mail_to = join_addresses (to_list (to_field body)),
                          mail_cc = optional_list (copy_list (cc body)),
                          mail_bcc = optional_list (copy_list (bcc body)),
                          mail_replyTo = (if truthy_str (replyTo body) then replyTo body else None),
                          mail_subject = finalSubject,
                          mail_html = Some finalHtml,
                          mail_text = Some finalText\<rparr>
                   in case deliver E (tenant_ident tenant) mailOptions (w\<lparr>rstate := st'\<rparr>) of
                        (Inl e, logId, w') \<Rightarrow> (Inl e, logId, w')
                      | (Inr mid, logId, w') \<Rightarrow>
                          (Inr \<lparr>messageId = mid,
                                template_used = Some (or_else (templateSlug body) [],
                                                      version templateRecord)\<rparr>,
                           logId, w'))))
      else
        (if \<not> truthy_addr (to_field body) \<or> \<not> truthy_str (subject_field body)
            \<or> \<not> truthy_str (htmlBody body)
         then (Inl (AppError ''Missing required fields: to, subject, htmlBody'' 400), None, w)
         else case tn of
           None \<Rightarrow> (Inl (AppError ''Tenant not found'' 401), None, w)
         | Some tenant \<Rightarrow>
             (let mailOptions =
                    \<lparr>mail_from = or_else (from_field body) (from_email tenant),
                     mail_to = join_addresses (to_list (to_field body)),
                     mail_cc = optional_list (copy_list (cc body)),
                     mail_bcc = optional_list (copy_list (bcc body)),
                     mail_replyTo = None,
                     mail_subject = or_else (subject_field body) [],
                     mail_html = (if truthy_str (htmlBody body)
                                  then Some (renderTemplate (htmlBody body) (variables body))
                                  else None),
                     mail_text = (if truthy_str (textBody body)
                                  then Some (renderTemplate (textBody body) (variables body))
                                  else None)\<rparr>
              in case deliver E (tenant_ident tenant) mailOptions w of
                   (Inl e, logId, w') \<Rightarrow> (Inl e, logId, w')
                 | (Inr mid, logId, w') \<Rightarrow>
                     (Inr \<lparr>messageId = mid, template_used = None\<rparr>, logId, w'))))"

text \<open>\<open>(error as any).message || 'Unknown error'\<close>\<close>

definition error_text :: "error \<Rightarrow> string" where
  "error_text e =
     (case e of
        AppError m s \<Rightarrow> if m \<noteq> [] then m else ''Unknown error''
      | Error m \<Rightarrow> if m \<noteq> [] then m else ''Unknown error''
      | TypeError m \<Rightarrow> if m \<noteq> [] then m else ''Unknown error''
      | TransportError err \<Rightarrow>
          if truthy (message err) then js_String (message err) else ''Unknown error'')"

text \<open>The \<open>catch\<close> block: roll back, then, when a log row was inserted, write the
  failed status and the error text to the row of that identifier.\<close>

definition on_failure :: "error \<Rightarrow> nat option \<Rightarrow> world \<Rightarrow> world" where
  "on_failure e logId w =
     (let db1 = db_rollback (logs w)
      in case logId of
           None \<Rightarrow> w\<lparr>logs := db1\<rparr>
         | Some i \<Rightarrow>
             if i \<noteq> 0 then w\<lparr>logs := mark_failed db1 i (error_text e)\<rparr>
             else w\<lparr>logs := db1\<rparr>)"

definition sendEmail ::
  "env \<Rightarrow> libs \<Rightarrow> nat \<Rightarrow> TemplateRecord list \<Rightarrow> tenant option \<Rightarrow> send_request \<Rightarrow> world
     \<Rightarrow> (error + send_response) \<times> world" where
  "sendEmail E L now tmpl tn body w =
     (case send_body E L now tmpl tn body w of
        (Inr r, logId, w') \<Rightarrow> (Inr r, w')
      | (Inl e, logId, w') \<Rightarrow> (Inl e, on_failure e logId w'))"

text \<open>The delay slept after a failed attempt: \<open>baseDelay * Math.pow(2, attempt - 1)\<close>.\<close>

definition retry_delay :: "env \<Rightarrow> nat \<Rightarrow> int" where
  "retry_delay E attempt = RETRY_BASE_DELAY_MS E * 2 ^ (attempt - 1)"

text \<open>The retry condition in the words of the specification: a network code for a
  timeout, a connection reset or a temporary DNS failure, or one of the temporary
  SMTP response codes.\<close>

definition spec_transient :: "env \<Rightarrow> send_error \<Rightarrow> bool" where
  "spec_transient E err =
     (code err \<in> JStr ` {''ETIMEDOUT'', ''ECONNRESET'', ''EAI_AGAIN''}
      \<or> js_Number (string_to_number E) (responseCode err) \<in> Some ` {421, 450, 451, 452}
      \<or> js_Number (string_to_number E) (code err) \<in> Some ` {421, 450, 451, 452})"

text \<open>Sample inputs for concrete runs: a tenant, a legacy request, a template request
  that carries no raw content, an empty world, three transport errors, and the default
  retry settings around a given transport behaviour.\<close>

definition sample_tenant :: tenant where
  "sample_tenant = \<lparr>tenant_ident = ''1'', from_email = ''noreply@example.com''\<rparr>"

definition legacy_request :: send_request where
  "legacy_request =
     \<lparr>templateSlug = None, templateData = None, to_field = Some (One ''ann@example.com''),
      from_field = None, replyTo = None, cc = None, bcc = None, version_field = None,
      overrides = None, subject_field = Some ''Hello'', htmlBody = Some ''<p>Hi</p>'',
      textBody = None, variables = None\<rparr>"

definition template_request :: send_request where
  "template_request =
     \<lparr>templateSlug = Some ''test-template'', templateData = Some (JObj []),
      to_field = Some (One ''ann@example.com''),
      from_field = None, replyTo = None, cc = None, bcc = None, version_field = None,
      overrides = None, subject_field = None, htmlBody = None,
      textBody = None, variables = None\<rparr>"

definition empty_world :: world where
  "empty_world =
     \<lparr>logs = \<lparr>log_rows = [], open_txn = None, next_log_id = 1\<rparr>,
      rstate = \<lparr>cache = Map.empty, compiles = 0\<rparr>,
      sent_mail = [], sleeps = []\<rparr>"

definition socket_error :: send_error where
  "socket_error = \<lparr>code = JStr ''ESOCKET'', responseCode = JUndefined,
                    message = JStr ''socket hang up''\<rparr>"

definition timeout_error :: send_error where
  "timeout_error = \<lparr>code = JStr ''ETIMEDOUT'', responseCode = JUndefined,
                     message = JStr ''Connection timeout''\<rparr>"

definition auth_error :: send_error where
  "auth_error = \<lparr>code = JStr ''EAUTH'', responseCode = JNum 535,
                  message = JStr ''Invalid login''\<rparr>"

definition default_env :: "(nat \<Rightarrow> mail \<Rightarrow> send_error + string) \<Rightarrow> env" where
  "default_env outcomes =
     \<lparr>RETRY_MAX_ATTEMPTS = 3, RETRY_BASE_DELAY_MS = 500, nodemailer_available = True,
      sendMail = outcomes, string_to_number = (\<lambda>s. None)\<rparr>"

text \<open>The mail of the legacy request, and the mail the template request falls back to
  when rendering fails.\<close>

definition legacy_mail :: mail where
  "legacy_mail =
     \<lparr>mail_from = ''noreply@example.com'', mail_to = ''ann@example.com'', mail_cc = None,
      mail_bcc = None, mail_replyTo = None, mail_subject = ''Hello'',
      mail_html = Some ''<p>Hi</p>'', mail_text = None\<rparr>"

definition fallback_mail :: mail where
  "fallback_mail =
     \<lparr>mail_from = ''noreply@example.com'', mail_to = ''ann@example.com'', mail_cc = None,
      mail_bcc = None, mail_replyTo = None, mail_subject = ''Email'',
      mail_html = Some [], mail_text = Some []\<rparr>"

definition template_request_with_raw :: send_request where
  "template_request_with_raw =
     \<lparr>templateSlug = Some ''test-template'', templateData = Some (JObj []),
      to_field = Some (One ''ann@example.com''),
      from_field = None, replyTo = None, cc = None, bcc = None, version_field = None,
      overrides = None, subject_field = Some ''Hello'', htmlBody = Some ''<p>Hi</p>'',
      textBody = None, variables = None\<rparr>"

text \<open>The override fields of a request, each absent when there is no override object.\<close>

definition override_fields :: "send_request \<Rightarrow> overrides_fields" where
  "override_fields body =
     (case overrides body of
        None \<Rightarrow> \<lparr>subject_ov = None, htmlBody_ov = None, textBody_ov = None\<rparr>
      | Some v \<Rightarrow> v)"

section \<open>Properties of number printing\<close>

lemma digit_char_decimal: "d < 10 \<Longrightarrow> (of_char (digit_char d) :: nat) = 48 + d"
proof -
  assume "d < 10"
  then have "d \<in> {0, 1, 2, 3, 4, 5, 6, 7, 8, 9}" by auto
  then show ?thesis by (auto simp: digit_char_def)
qed

lemma to_digits_decimal:
  "c \<in> set (to_digits 10 n) \<Longrightarrow> 48 \<le> (of_char c :: nat) \<and> (of_char c :: nat) \<le> 57"
proof (induction "10 :: nat" n arbitrary: c rule: to_digits.induct)
  case (1 n)
  show ?case
  proof (cases "n < 10")
    case True
    with 1(2) have "c = digit_char n" by (simp add: to_digits.simps)
    then show ?thesis using True digit_char_decimal [of n] by simp
  next
    case False
    with 1(2) have "c \<in> set (to_digits 10 (n div 10)) \<or> c = digit_char (n mod 10)"
      by (subst (asm) to_digits.simps) auto
    then show ?thesis
    proof
      assume "c \<in> set (to_digits 10 (n div 10))"
      then show ?thesis using 1(1) False by simp
    next
      assume "c = digit_char (n mod 10)"
      then show ?thesis using digit_char_decimal [of "n mod 10"] by simp
    qed
  qed
qed

lemma nat_toString_no_underscore: "CHR ''_'' \<notin> set (nat_toString n)"
  using to_digits_decimal [of "CHR ''_''" n] by (auto simp: nat_toString_def)

lemma digits_value_snoc: "digits_value (s @ [c]) = 10 * digits_value s + (of_char c - 48)"
  by (simp add: digits_value_def)

lemma digits_value_to_digits: "digits_value (to_digits 10 n) = n"
proof (induction "10 :: nat" n rule: to_digits.induct)
  case (1 n)
  show ?case
  proof (cases "n < 10")
    case True
    then show ?thesis
      by (simp add: to_digits.simps digits_value_def digit_char_decimal)
  next
    case False
    then have "to_digits 10 n = to_digits 10 (n div 10) @ [digit_char (n mod 10)]"
      by (subst to_digits.simps) simp
    then show ?thesis
      using 1 False by (simp add: digits_value_snoc digit_char_decimal)
  qed
qed




section \<open>Properties of the legacy renderer\<close>


lemma brace_classes [simp]:
  "\<not> is_space CHR ''{''" "\<not> is_word CHR ''{''" "\<not> is_space CHR ''}''" "\<not> is_word CHR ''}''"
  by (simp_all add: is_word_def is_space_def)
























section \<open>Properties of the cache keys\<close>


lemma nat_toString_inj: "nat_toString m = nat_toString n \<Longrightarrow> m = n"
  by (metis digits_value_to_digits nat_toString_def)

lemma delimited_eq:
  assumes "c \<notin> set xs" "c \<notin> set ys" "xs @ c # r1 = ys @ c # r2"
  shows "xs = ys"
proof -
  have "takeWhile (\<lambda>x. x \<noteq> c) (xs @ c # r1) = xs"
    using assms(1) by (auto simp: takeWhile_tail)
  moreover have "takeWhile (\<lambda>x. x \<noteq> c) (ys @ c # r2) = ys"
    using assms(2) by (auto simp: takeWhile_tail)
  ultimately show ?thesis using assms(3) by simp
qed

lemma key_prefix_iff:
  assumes "CHR ''_'' \<notin> set I" "CHR ''_'' \<notin> set J"
  shows "prefix (''template_'' @ I @ ''_'') (getCacheKey J v h) \<longleftrightarrow> I = J"
proof
  assume "prefix (''template_'' @ I @ ''_'') (getCacheKey J v h)"
  then obtain z where "getCacheKey J v h = (''template_'' @ I @ ''_'') @ z"
    by (auto simp: prefix_def)
  then have "I @ CHR ''_'' # z = J @ CHR ''_'' # (''v'' @ nat_toString v @ ''_'' @ h)"
    by (simp add: getCacheKey_def)
  then show "I = J" using assms delimited_eq by metis
next
  assume "I = J"
  then show "prefix (''template_'' @ I @ ''_'') (getCacheKey J v h)"
    by (simp add: getCacheKey_def)
qed

text \<open>
  Claim C8. Invalidating the cache for a template identifier removes every entry whose
  key was built for that identifier, whatever its version and fingerprint; it leaves
  the entry of every key built for another identifier as it was; and it changes no
  entry other than by removing it. Identifiers are the decimal strings of the store's
  serial numbers.
\<close>

theorem invalidateTemplateCache_scoped:
  "invalidateTemplateCache c (nat_toString i) (getCacheKey (nat_toString i) v h) = None
   \<and> (j \<noteq> i \<longrightarrow>
        invalidateTemplateCache c (nat_toString i) (getCacheKey (nat_toString j) w g)
          = c (getCacheKey (nat_toString j) w g))
   \<and> (invalidateTemplateCache c (nat_toString i) k = None
        \<or> invalidateTemplateCache c (nat_toString i) k = c k)"
proof -
  have "prefix (''template_'' @ nat_toString i @ ''_'') (getCacheKey (nat_toString i) v h)"
    by (simp only: key_prefix_iff [OF nat_toString_no_underscore nat_toString_no_underscore])
  then have a: "invalidateTemplateCache c (nat_toString i) (getCacheKey (nat_toString i) v h) = None"
    unfolding invalidateTemplateCache_def by simp
  have b: "invalidateTemplateCache c (nat_toString i) (getCacheKey (nat_toString j) w g)
          = c (getCacheKey (nat_toString j) w g)" if "j \<noteq> i"
  proof -
    have "\<not> prefix (''template_'' @ nat_toString i @ ''_'') (getCacheKey (nat_toString j) w g)"
      using that nat_toString_inj [of i j]
      by (auto simp only: key_prefix_iff [OF nat_toString_no_underscore nat_toString_no_underscore])
    then show ?thesis unfolding invalidateTemplateCache_def by simp
  qed
  have d: "invalidateTemplateCache c (nat_toString i) k = None
        \<or> invalidateTemplateCache c (nat_toString i) k = c k"
    unfolding invalidateTemplateCache_def by simp
  from a b d show ?thesis by blast
qed

text \<open>The theorem at templates 1 and 10: invalidating 1 keeps the entry of 10 and drops
  the entry of 1.\<close>

theorem invalidateTemplateCache_scoped_witness:
  "(10 :: nat) \<noteq> 1
   \<and> invalidateTemplateCache
        [getCacheKey (nat_toString 10) 1 ''31e'' \<mapsto> (\<lparr>html = ''h'', text_part = ''t'', subject = ''s''\<rparr>, 5)]
        (nat_toString 1) (getCacheKey (nat_toString 10) 1 ''31e'')
      = Some (\<lparr>html = ''h'', text_part = ''t'', subject = ''s''\<rparr>, 5)
   \<and> invalidateTemplateCache
        [getCacheKey (nat_toString 1) 1 ''31e'' \<mapsto> (\<lparr>html = ''h'', text_part = ''t'', subject = ''s''\<rparr>, 5)]
        (nat_toString 1) (getCacheKey (nat_toString 1) 1 ''31e'')
      = None"
  using invalidateTemplateCache_scoped
    [of "[getCacheKey (nat_toString 10) 1 ''31e'' \<mapsto> (\<lparr>html = ''h'', text_part = ''t'', subject = ''s''\<rparr>, 5)]"
        1 1 "''31e''" 10 1 "''31e''" "[]"]
    invalidateTemplateCache_scoped
    [of "[getCacheKey (nat_toString 1) 1 ''31e'' \<mapsto> (\<lparr>html = ''h'', text_part = ''t'', subject = ''s''\<rparr>, 5)]"
        1 1 "''31e''" 10 1 "''31e''" "[]"]
  by simp


section \<open>Properties of the template renderer\<close>


lemma render_hit:
  assumes k: "cache_key_of templateRecord data ver = Some k"
    and c: "cache st k = Some (r, t)" and live: "now \<le> t"
  shows "TemplateRenderer_renderTemplate L now st templateRecord data ver = (Inr r, st)"
proof -
  from k obtain h where h: "generateDataHash data = Some h"
    and key: "k = getCacheKey (template_id templateRecord)
        (case ver of Some v \<Rightarrow> if v \<noteq> 0 then v else version templateRecord
         | None \<Rightarrow> version templateRecord) h"
    by (auto simp: cache_key_of_def)
  have "cache_get now (cache st) k = (Some r, cache st)"
    using c live by (simp add: cache_get_def)
  then show ?thesis
    using h key by (simp add: TemplateRenderer_renderTemplate_def Let_def)
qed

lemma generatePlainText_cache:
  "generatePlainText L st h p data = (t, st') \<Longrightarrow> cache st' = cache st \<and> compiles st \<le> compiles st'"
  by (auto simp: generatePlainText_def Let_def split: option.splits if_splits)

lemma render_success:
  assumes "TemplateRenderer_renderTemplate L now st templateRecord data ver = (Inr r, st1)"
  shows "\<exists>k t. cache_key_of templateRecord data ver = Some k \<and> cache st1 k = Some (r, t) \<and> now \<le> t
           \<and> (compiles st1 \<noteq> compiles st \<longrightarrow> t = now + stdTTL_ms)"
proof -
  from assms obtain h where h: "generateDataHash data = Some h"
    by (auto simp: TemplateRenderer_renderTemplate_def split: option.splits)
  define k where "k = getCacheKey (template_id templateRecord)
        (case ver of Some v \<Rightarrow> if v \<noteq> 0 then v else version templateRecord
         | None \<Rightarrow> version templateRecord) h"
  have key: "cache_key_of templateRecord data ver = Some k"
    using h by (simp add: cache_key_of_def k_def)
  show ?thesis
  proof (cases "cache_get now (cache st) k")
    case (Pair cached c1)
    show ?thesis
    proof (cases cached)
      case (Some r')
      with Pair obtain t where c: "cache st k = Some (r', t)" "now \<le> t" "c1 = cache st"
        by (auto simp: cache_get_def split: option.splits if_splits)
      then have "TemplateRenderer_renderTemplate L now st templateRecord data ver = (Inr r', st)"
        using render_hit [OF key] by blast
      with assms c key show ?thesis by auto
    next
      case None
      let ?st1 = "st\<lparr>cache := c1\<rparr>"
      from assms h Pair None obtain renderedSubject compiled processed renderedText st4 where
        st4: "generatePlainText L (?st1\<lparr>compiles := compiles st + 1 + 1\<rparr>)
                (sanitizeHtml L (inlineCss L processed)) (plaintext_template templateRecord) data
              = (renderedText, st4)"
        and r: "r = \<lparr>html = sanitizeHtml L (inlineCss L processed), text_part = renderedText,
                     subject = renderedSubject\<rparr>"
        and st1: "st1 = st4\<lparr>cache := cache_set now (cache st4) k r\<rparr>"
        by (auto simp: TemplateRenderer_renderTemplate_def Let_def k_def compileTemplate_def
            split: option.splits prod.splits if_splits)
      have "cache st1 k = Some (r, now + stdTTL_ms)"
        using st1 by (simp add: cache_set_def)
      then show ?thesis using key by auto
    qed
  qed
qed

lemma render_miss_compiles:
  assumes k: "cache_key_of templateRecord data ver = Some k"
    and miss: "\<not> live_at now (cache st) k"
  shows "compiles st < compiles (snd (TemplateRenderer_renderTemplate L now st templateRecord data ver))"
proof -
  from k obtain h where h: "generateDataHash data = Some h"
    and key: "k = getCacheKey (template_id templateRecord)
        (case ver of Some v \<Rightarrow> if v \<noteq> 0 then v else version templateRecord
         | None \<Rightarrow> version templateRecord) h"
    by (auto simp: cache_key_of_def)
  obtain c1 where g: "cache_get now (cache st) k = (None, c1)"
    using miss by (auto simp: cache_get_def live_at_def split: option.splits)
  show ?thesis
    using h key g
    by (auto simp: TemplateRenderer_renderTemplate_def Let_def compileTemplate_def
        split: option.splits prod.splits if_splits dest!: generatePlainText_cache)
qed




lemmas eval_hash = generateDataHash_def hash_string_def hash_step_def push_bit_eq_mult
  json_quote_def json_escape_char_def int_toString_def nat_toString_def to_digits.simps
  digit_char_def

lemma render_frame:
  assumes k: "cache_key_of templateRecord data ver = Some k" and other: "k' \<noteq> k"
  shows "cache (snd (TemplateRenderer_renderTemplate L now st templateRecord data ver)) k' = cache st k'"
proof -
  from k obtain h where h: "generateDataHash data = Some h"
    and key: "k = getCacheKey (template_id templateRecord)
        (case ver of Some v \<Rightarrow> if v \<noteq> 0 then v else version templateRecord
         | None \<Rightarrow> version templateRecord) h"
    by (auto simp: cache_key_of_def)
  obtain cached c1 where g: "cache_get now (cache st) k = (cached, c1)" by (cases "cache_get now (cache st) k")
  then have c1: "c1 k' = cache st k'"
    using other by (auto simp: cache_get_def split: option.splits if_splits)
  show ?thesis
    using h key g c1 other
    by (auto simp: TemplateRenderer_renderTemplate_def Let_def compileTemplate_def cache_set_def
        split: option.splits prod.splits if_splits dest!: generatePlainText_cache)
qed

text \<open>
  Claim C5. When a render of a record and data returns a result, that result is in the
  cache under the key of the record and data and has not expired; when the render
  called the compiler, the entry lives for the standard time to live. A second render
  of the same record and data at any time at which the entry has not expired returns
  the same result and leaves the renderer as it was: the cache is unchanged and the
  compiler is not called.
\<close>

theorem renderTemplate_twice:
  assumes "TemplateRenderer_renderTemplate L now1 st templateRecord data ver = (Inr r, st1)"
  shows "\<exists>k. cache_key_of templateRecord data ver = Some k
           \<and> live_at now1 (cache st1) k
           \<and> (compiles st1 \<noteq> compiles st \<longrightarrow> live_at (now1 + stdTTL_ms) (cache st1) k)
           \<and> (\<forall>now2. live_at now2 (cache st1) k \<longrightarrow>
                 TemplateRenderer_renderTemplate L now2 st1 templateRecord data ver = (Inr r, st1))"
proof -
  from render_success [OF assms] obtain k t where
    k: "cache_key_of templateRecord data ver = Some k" and c: "cache st1 k = Some (r, t)"
    and t: "now1 \<le> t" and fresh: "compiles st1 \<noteq> compiles st \<longrightarrow> t = now1 + stdTTL_ms"
    by blast
  have "TemplateRenderer_renderTemplate L now2 st1 templateRecord data ver = (Inr r, st1)"
    if "live_at now2 (cache st1) k" for now2
    using that c render_hit [OF k c] by (simp add: live_at_def)
  then show ?thesis using k c t fresh by (auto simp: live_at_def)
qed

lemma sample_first_render:
  "TemplateRenderer_renderTemplate plain_libs 0 \<lparr>cache = Map.empty, compiles = 0\<rparr>
      sample_template (JObj []) None
   = (Inr \<lparr>html = ''<div>Hello</div>'', text_part = ''<div>Hello</div>'', subject = ''Hello''\<rparr>,
      \<lparr>cache = [''template_1_v1_31e'' \<mapsto>
          (\<lparr>html = ''<div>Hello</div>'', text_part = ''<div>Hello</div>'', subject = ''Hello''\<rparr>,
           3600000)],
       compiles = 2\<rparr>)"
  by (simp add: TemplateRenderer_renderTemplate_def eval_hash getCacheKey_def cache_get_def
      cache_set_def compileTemplate_def generatePlainText_def sanitizeHtml_def inlineCss_def
      plain_libs_def sample_template_def stdTTL_ms_def Let_def)

text \<open>The theorem at the sample template: a first render at time 0 and a second one a
  second later.\<close>

theorem renderTemplate_twice_witness:
  "TemplateRenderer_renderTemplate plain_libs 0 \<lparr>cache = Map.empty, compiles = 0\<rparr>
      sample_template (JObj []) None
   = (Inr \<lparr>html = ''<div>Hello</div>'', text_part = ''<div>Hello</div>'', subject = ''Hello''\<rparr>,
      \<lparr>cache = [''template_1_v1_31e'' \<mapsto>
          (\<lparr>html = ''<div>Hello</div>'', text_part = ''<div>Hello</div>'', subject = ''Hello''\<rparr>,
           3600000)],
       compiles = 2\<rparr>)
   \<and> TemplateRenderer_renderTemplate plain_libs 1000
        \<lparr>cache = [''template_1_v1_31e'' \<mapsto>
          (\<lparr>html = ''<div>Hello</div>'', text_part = ''<div>Hello</div>'', subject = ''Hello''\<rparr>,
           3600000)],
         compiles = 2\<rparr>
        sample_template (JObj []) None
   = (Inr \<lparr>html = ''<div>Hello</div>'', text_part = ''<div>Hello</div>'', subject = ''Hello''\<rparr>,
      \<lparr>cache = [''template_1_v1_31e'' \<mapsto>
          (\<lparr>html = ''<div>Hello</div>'', text_part = ''<div>Hello</div>'', subject = ''Hello''\<rparr>,
           3600000)],
       compiles = 2\<rparr>)"
proof -
  have key: "cache_key_of sample_template (JObj []) None = Some ''template_1_v1_31e''"
    by (simp add: cache_key_of_def eval_hash getCacheKey_def sample_template_def)
  from renderTemplate_twice [OF sample_first_render] key
  show ?thesis using sample_first_render by (auto simp: live_at_def)
qed


subsection \<open>The data fingerprint\<close>


lemma hash_ab: "generateDataHash (JObj [(''a'', JNum 1), (''b'', JNum 2)]) = Some ''kz8hg0''"
  by (simp add: eval_hash)

lemma hash_ba: "generateDataHash (JObj [(''b'', JNum 2), (''a'', JNum 1)]) = Some ''k2g9cg''"
  by (simp add: eval_hash)

lemma generateDataHash_cong:
  "JSON_stringify a = JSON_stringify b \<Longrightarrow> generateDataHash a = generateDataHash b"
  by (simp add: generateDataHash_def)

text \<open>
  Claim C9. The fingerprint depends on the order of the properties: there are two
  objects with the same properties in a different order whose fingerprints differ, so
  that, after a render of the first from an empty cache, a render of the second with
  the same record misses the cache and calls the compiler again. Two values with the
  same serialisation always have the same fingerprint.
\<close>

theorem generateDataHash_order_sensitive:
  "(\<exists>d1 d2. same_properties d1 d2
       \<and> generateDataHash d1 \<noteq> generateDataHash d2
       \<and> (\<forall>L now st templateRecord ver r st1.
             cache st = Map.empty
             \<and> TemplateRenderer_renderTemplate L now st templateRecord d1 ver = (Inr r, st1)
             \<longrightarrow> compiles st1
                   < compiles (snd (TemplateRenderer_renderTemplate L now st1 templateRecord d2 ver))))
   \<and> (JSON_stringify a = JSON_stringify b \<longrightarrow> generateDataHash a = generateDataHash b)"
proof -
  let ?d1 = "JObj [(''a'', JNum 1), (''b'', JNum 2)]"
  let ?d2 = "JObj [(''b'', JNum 2), (''a'', JNum 1)]"
  have same: "same_properties ?d1 ?d2"
    by (auto simp: same_properties_def)
  have diff: "generateDataHash ?d1 \<noteq> generateDataHash ?d2"
    by (simp add: hash_ab hash_ba)
  have bypass: "compiles st1
        < compiles (snd (TemplateRenderer_renderTemplate L now st1 templateRecord ?d2 ver))"
    if empty: "cache st = Map.empty"
      and first: "TemplateRenderer_renderTemplate L now st templateRecord ?d1 ver = (Inr r, st1)"
    for L now st templateRecord ver r st1
  proof -
    obtain k1 where k1: "cache_key_of templateRecord ?d1 ver = Some k1"
      by (simp add: cache_key_of_def hash_ab)
    obtain k2 where k2: "cache_key_of templateRecord ?d2 ver = Some k2"
      by (simp add: cache_key_of_def hash_ba)
    have ne: "k2 \<noteq> k1"
      using k1 k2 by (auto simp: cache_key_of_def hash_ab hash_ba getCacheKey_def)
    have "cache st1 k2 = cache st k2"
      using render_frame [OF k1 ne, of L now st] first by simp
    then have "\<not> live_at now (cache st1) k2"
      using empty by (simp add: live_at_def)
    then show ?thesis by (rule render_miss_compiles [OF k2])
  qed
  from same diff bypass generateDataHash_cong show ?thesis by blast
qed

text \<open>The theorem at an object with an undefined property and the empty object, which
  both serialise to \<open>{}\<close>.\<close>

theorem generateDataHash_order_sensitive_witness:
  "JSON_stringify (JObj [(''a'', JUndefined)]) = JSON_stringify (JObj [])
   \<and> generateDataHash (JObj [(''a'', JUndefined)]) = generateDataHash (JObj [])"
  using generateDataHash_order_sensitive [of "JObj [(''a'', JUndefined)]" "JObj []"]
  by simp


section \<open>Properties of the template store\<close>


lemma highest_version_None: "highest_version xs = None \<longleftrightarrow> xs = []"
  by (induction xs) (auto split: option.splits)

lemma highest_version_Some:
  "highest_version xs = Some r \<Longrightarrow> r \<in> set xs \<and> (\<forall>x\<in>set xs. version x \<le> version r)"
proof (induction xs arbitrary: r)
  case Nil
  then show ?case by simp
next
  case (Cons a xs)
  show ?case
  proof (cases "highest_version xs")
    case None
    then have "xs = []" by (simp add: highest_version_None)
    with Cons.prems show ?thesis by simp
  next
    case (Some m)
    from Cons.IH [OF Some] have m: "m \<in> set xs" "\<forall>x\<in>set xs. version x \<le> version m" by auto
    show ?thesis
    proof (cases "version a < version m")
      case True
      with Some Cons.prems have "r = m" by simp
      with m True show ?thesis by auto
    next
      case False
      with Some Cons.prems have "r = a" by simp
      with m False show ?thesis by fastforce
    qed
  qed
qed

lemma active_matches_set:
  "x \<in> set (active_matches rows t s) \<longleftrightarrow> x \<in> set rows \<and> tenant_id x = t \<and> slug x = s \<and> is_active x"
  by (auto simp: active_matches_def)

lemma resolveTemplate_default:
  "resolveTemplate rows t s None = highest_version (active_matches rows t s)"
  "resolveTemplate rows t s (Some 0) = highest_version (active_matches rows t s)"
  by (simp_all add: resolveTemplate_def)

lemma resolveTemplate_pinned:
  "v \<noteq> 0 \<Longrightarrow> resolveTemplate rows t s (Some v)
     = highest_version (filter (\<lambda>r. version r = v) (active_matches rows t s))"
  by (simp add: resolveTemplate_def)

lemma resolveTemplate_sound:
  assumes "resolveTemplate rows t s ver = Some r"
  shows "r \<in> set rows \<and> is_active r \<and> tenant_id r = t \<and> slug r = s"
proof -
  from assms have "r \<in> set (active_matches rows t s)"
    by (auto simp: resolveTemplate_def split: option.splits if_splits dest!: highest_version_Some)
  then show ?thesis by (simp add: active_matches_set)
qed

lemma resolveTemplate_exact:
  assumes "v \<noteq> 0" "resolveTemplate rows t s (Some v) = Some r"
  shows "version r = v"
  using assms highest_version_Some [of "filter (\<lambda>r. version r = v) (active_matches rows t s)" r]
  by (simp add: resolveTemplate_pinned)

lemma resolveTemplate_pinned_None:
  assumes "v \<noteq> 0"
  shows "resolveTemplate rows t s (Some v) = None
     \<longleftrightarrow> (\<forall>x\<in>set rows. \<not> (is_active x \<and> tenant_id x = t \<and> slug x = s \<and> version x = v))"
  using assms
  by (auto simp: resolveTemplate_pinned highest_version_None filter_empty_conv active_matches_set)

lemma resolveTemplate_highest:
  assumes "resolveTemplate rows t s None = Some r"
  shows "\<forall>x\<in>set rows. is_active x \<and> tenant_id x = t \<and> slug x = s \<longrightarrow> version x \<le> version r"
  using assms highest_version_Some [of "active_matches rows t s" r]
  by (auto simp: resolveTemplate_default active_matches_set)

lemma resolveTemplate_default_None:
  "resolveTemplate rows t s None = None
     \<longleftrightarrow> (\<forall>x\<in>set rows. \<not> (is_active x \<and> tenant_id x = t \<and> slug x = s))"
  by (auto simp: resolveTemplate_default highest_version_None active_matches_def filter_empty_conv)

lemma getTemplate_Inl:
  assumes "getTemplate rows t s ver = Inl e"
  shows "e = AppError ''Template not found'' 404 \<and> resolveTemplate rows t s ver = None"
  using assms
  by (auto simp: getTemplate_def resolveTemplate_def highest_version_None Let_def
      split: option.splits if_splits list.splits)

lemma getTemplate_Inr:
  assumes "getTemplate rows t s ver = Inr r"
  shows "r \<in> set rows \<and> is_active r \<and> tenant_id r = t \<and> slug r = s
         \<and> (\<forall>v. ver = Some v \<and> v \<noteq> 0 \<longrightarrow> version r = v)"
proof -
  have hv: "highest_version (active_matches rows t s) = Some x \<Longrightarrow> x \<in> set (active_matches rows t s)" for x
    by (auto dest: highest_version_Some)
  have in_filter: "filter P xs = x # ys \<Longrightarrow> x \<in> set xs \<and> P x" for P and xs :: "TemplateRecord list" and x ys
    by (metis filter_eq_ConsD list.set_intros(1) in_set_conv_decomp)
  from assms show ?thesis
    by (auto simp: getTemplate_def Let_def active_matches_set
        split: option.splits if_splits list.splits dest!: hv in_filter)
qed

text \<open>
  Claim C7, as amended. A record returned by resolution is an active row of the given
  tenant and slug, so never a row of another tenant. With a version argument other
  than 0 the record has exactly that version, and nothing is returned exactly when no
  active row of that tenant, slug and version exists. Without a version argument the
  record has the highest version among the active rows of that tenant and slug, and
  nothing is returned exactly when there is none. The version argument 0 is read as no
  version argument. The read endpoint answers \<open>Template not found\<close> (404) only when
  resolution finds nothing, and otherwise returns such a record.
\<close>

theorem resolveTemplate_policy:
  "(resolveTemplate rows t s ver = Some r \<longrightarrow>
       r \<in> set rows \<and> is_active r \<and> tenant_id r = t \<and> slug r = s)
   \<and> (v \<noteq> 0 \<and> resolveTemplate rows t s (Some v) = Some r \<longrightarrow> version r = v)
   \<and> (v \<noteq> 0 \<longrightarrow>
        (resolveTemplate rows t s (Some v) = None
          \<longleftrightarrow> (\<forall>x\<in>set rows. \<not> (is_active x \<and> tenant_id x = t \<and> slug x = s \<and> version x = v))))
   \<and> (resolveTemplate rows t s None = Some r \<longrightarrow>
        (\<forall>x\<in>set rows. is_active x \<and> tenant_id x = t \<and> slug x = s \<longrightarrow> version x \<le> version r))
   \<and> (resolveTemplate rows t s None = None
        \<longleftrightarrow> (\<forall>x\<in>set rows. \<not> (is_active x \<and> tenant_id x = t \<and> slug x = s)))
   \<and> resolveTemplate rows t s (Some 0) = resolveTemplate rows t s None
   \<and> (getTemplate rows t s ver = Inl e \<longrightarrow>
        e = AppError ''Template not found'' 404 \<and> resolveTemplate rows t s ver = None)
   \<and> (getTemplate rows t s ver = Inr r \<longrightarrow>
        r \<in> set rows \<and> is_active r \<and> tenant_id r = t \<and> slug r = s
        \<and> (\<forall>w. ver = Some w \<and> w \<noteq> 0 \<longrightarrow> version r = w))"
proof -
  have c1: "resolveTemplate rows t s ver = Some r \<longrightarrow>
       r \<in> set rows \<and> is_active r \<and> tenant_id r = t \<and> slug r = s"
    using resolveTemplate_sound by blast
  have c2: "v \<noteq> 0 \<and> resolveTemplate rows t s (Some v) = Some r \<longrightarrow> version r = v"
    using resolveTemplate_exact by blast
  have c3: "v \<noteq> 0 \<longrightarrow>
        (resolveTemplate rows t s (Some v) = None
          \<longleftrightarrow> (\<forall>x\<in>set rows. \<not> (is_active x \<and> tenant_id x = t \<and> slug x = s \<and> version x = v)))"
    using resolveTemplate_pinned_None by blast
  have c4: "resolveTemplate rows t s None = Some r \<longrightarrow>
        (\<forall>x\<in>set rows. is_active x \<and> tenant_id x = t \<and> slug x = s \<longrightarrow> version x \<le> version r)"
    using resolveTemplate_highest by blast
  have c5: "resolveTemplate rows t s None = None
        \<longleftrightarrow> (\<forall>x\<in>set rows. \<not> (is_active x \<and> tenant_id x = t \<and> slug x = s))"
    by (rule resolveTemplate_default_None)
  have c6: "resolveTemplate rows t s (Some 0) = resolveTemplate rows t s None"
    by (simp add: resolveTemplate_default)
  have c7: "getTemplate rows t s ver = Inl e \<longrightarrow>
        e = AppError ''Template not found'' 404 \<and> resolveTemplate rows t s ver = None"
    using getTemplate_Inl by blast
  have c8: "getTemplate rows t s ver = Inr r \<longrightarrow>
        r \<in> set rows \<and> is_active r \<and> tenant_id r = t \<and> slug r = s
        \<and> (\<forall>w. ver = Some w \<and> w \<noteq> 0 \<longrightarrow> version r = w)"
    using getTemplate_Inr by blast
  show ?thesis
    by (rule conjI c1 c2 c3 c4 c5 c6 c7 c8)+
qed




lemmas eval_sample = sample_template_def resolveTemplate_def getTemplate_def active_matches_def

text \<open>
  The theorem at the sample template: pinned to version 1 it is found, and nothing is
  found for another tenant.
\<close>

theorem resolveTemplate_policy_witness:
  "(1 :: nat) \<noteq> 0
   \<and> resolveTemplate [sample_template] ''1'' ''test-template'' (Some 1) = Some sample_template
   \<and> version sample_template = 1
   \<and> tenant_id sample_template = ''1''
   \<and> resolveTemplate [sample_template] ''2'' ''test-template'' None = None"
  using resolveTemplate_policy
    [of "[sample_template]" "''1''" "''test-template''" "Some 1" sample_template 1]
  by (simp add: eval_sample)

text \<open>
  Claim C7 as stated fails at the version argument 0: the record returned has
  version 1.
\<close>

theorem resolveTemplate_version_zero_counterexample:
  "resolveTemplate [sample_template] ''1'' ''test-template'' (Some 0) = Some sample_template
   \<and> version sample_template = 1"
  by (simp add: eval_sample)

lemma invalidate_empty [simp]: "invalidateTemplateCache Map.empty i = Map.empty"
  by (rule ext) (simp add: invalidateTemplateCache_def)

lemma deleteTemplate_rows:
  assumes "deleteTemplate db c templateId = Inr (db', c')"
  shows "templates db' = map (\<lambda>r. if template_id r = nat_toString templateId
                              then r\<lparr>is_active := False\<rparr> else r) (templates db)"
    and "c' = invalidateTemplateCache c (nat_toString templateId)"
  using assms by (auto simp: deleteTemplate_def split: option.splits)

lemma deleteTemplate_inactive:
  assumes "deleteTemplate db c templateId = Inr (db', c')"
    and "r \<in> set (templates db')" and "template_id r = nat_toString templateId"
  shows "\<not> is_active r"
  using assms by (auto simp: deleteTemplate_rows(1) split: if_splits)

text \<open>
  Claim C6, as amended. A delete removes no row: every row stays at its place, the
  addressed row unchanged but for its active flag, which is cleared, and every other
  row untouched. Afterwards neither default resolution nor a lookup pinned to a
  version returns the deactivated row, from the resolver or from the read endpoint,
  and the cache entries of that template identifier are invalidated.
\<close>

theorem deleteTemplate_soft:
  assumes "deleteTemplate db c templateId = Inr (db', c')"
  shows "length (templates db') = length (templates db)
     \<and> (\<forall>i<length (templates db).
           templates db' ! i =
             (if template_id (templates db ! i) = nat_toString templateId
              then (templates db ! i)\<lparr>is_active := False\<rparr> else templates db ! i))
     \<and> (\<forall>t s ver r. resolveTemplate (templates db') t s ver = Some r
           \<longrightarrow> template_id r \<noteq> nat_toString templateId)
     \<and> (\<forall>t s ver r. getTemplate (templates db') t s ver = Inr r
           \<longrightarrow> template_id r \<noteq> nat_toString templateId)
     \<and> c' = invalidateTemplateCache c (nat_toString templateId)"
proof -
  note rows = deleteTemplate_rows [OF assms]
  have len: "length (templates db') = length (templates db)" by (simp add: rows(1))
  have nth: "\<forall>i<length (templates db).
           templates db' ! i =
             (if template_id (templates db ! i) = nat_toString templateId
              then (templates db ! i)\<lparr>is_active := False\<rparr> else templates db ! i)"
    by (simp add: rows(1))
  have res: "\<forall>t s ver r. resolveTemplate (templates db') t s ver = Some r
           \<longrightarrow> template_id r \<noteq> nat_toString templateId"
    using resolveTemplate_sound deleteTemplate_inactive [OF assms] by blast
  have get: "\<forall>t s ver r. getTemplate (templates db') t s ver = Inr r
           \<longrightarrow> template_id r \<noteq> nat_toString templateId"
    using getTemplate_Inr deleteTemplate_inactive [OF assms] by blast
  show ?thesis using len nth res get rows(2) by blast
qed

lemma sample_delete:
  "deleteTemplate \<lparr>templates = [sample_template], next_template_id = 2\<rparr> Map.empty 1
     = Inr (\<lparr>templates = [sample_template\<lparr>is_active := False\<rparr>], next_template_id = 2\<rparr>, Map.empty)"
  by (simp add: deleteTemplate_def sample_template_def nat_toString_def to_digits.simps digit_char_def)

text \<open>
  The theorem at the sample store: the row is kept and default resolution finds
  nothing.
\<close>

theorem deleteTemplate_soft_witness:
  "deleteTemplate \<lparr>templates = [sample_template], next_template_id = 2\<rparr> Map.empty 1
     = Inr (\<lparr>templates = [sample_template\<lparr>is_active := False\<rparr>], next_template_id = 2\<rparr>, Map.empty)
   \<and> length [sample_template\<lparr>is_active := False\<rparr>] = length [sample_template]
   \<and> resolveTemplate [sample_template\<lparr>is_active := False\<rparr>] ''1'' ''test-template'' None = None"
proof -
  from deleteTemplate_soft [OF sample_delete, THEN conjunct1]
  have "length [sample_template\<lparr>is_active := False\<rparr>] = length [sample_template]"
    by simp
  moreover have
    "resolveTemplate [sample_template\<lparr>is_active := False\<rparr>] ''1'' ''test-template'' None = None"
    by (simp add: eval_sample)
  ultimately show ?thesis using sample_delete by simp
qed

text \<open>
  Claim C6 as stated fails: after the delete of the sample template, the lookup pinned
  to its tenant, slug and version 1 finds nothing.
\<close>

theorem deleteTemplate_pinned_counterexample:
  "deleteTemplate \<lparr>templates = [sample_template], next_template_id = 2\<rparr> Map.empty 1
     = Inr (\<lparr>templates = [sample_template\<lparr>is_active := False\<rparr>], next_template_id = 2\<rparr>, Map.empty)
   \<and> version sample_template = 1
   \<and> resolveTemplate [sample_template\<lparr>is_active := False\<rparr>] ''1'' ''test-template'' (Some 1) = None
   \<and> getTemplate [sample_template\<lparr>is_active := False\<rparr>] ''1'' ''test-template'' (Some 1)
        = Inl (AppError ''Template not found'' 404)"
  using sample_delete by (simp add: eval_sample)




lemma foldr_max_Max:
  "xs \<noteq> [] \<Longrightarrow> foldr max (map f xs) (0 :: nat) = Max (f ` set xs)"
proof (induction xs)
  case Nil
  then show ?case by simp
next
  case (Cons a xs)
  show ?case
  proof (cases "xs = []")
    case True
    then show ?thesis by simp
  next
    case False
    then have "foldr max (map f xs) 0 = Max (f ` set xs)" by (rule Cons.IH)
    moreover have "Max (f ` set (a # xs)) = max (f a) (Max (f ` set xs))"
      using False by simp
    ultimately show ?thesis by simp
  qed
qed

lemma next_version_Max:
  assumes "cur \<in> set rows"
  shows "next_version rows (tenant_id cur) (slug cur)
       = Suc (Max (version ` {r \<in> set rows. tenant_id r = tenant_id cur \<and> slug r = slug cur}))"
proof -
  let ?xs = "filter (\<lambda>r. tenant_id r = tenant_id cur \<and> slug r = slug cur) rows"
  have "?xs \<noteq> []" using assms by (auto simp: filter_empty_conv)
  then have "foldr max (map version ?xs) 0 = Max (version ` set ?xs)" by (rule foldr_max_Max)
  then show ?thesis by (simp add: next_version_def)
qed

lemma find_id:
  "find (\<lambda>r. template_id r = i) rows = Some cur \<Longrightarrow> cur \<in> set rows \<and> template_id cur = i"
  by (auto simp: find_Some_iff)

lemma apply_update_keeps:
  "template_id (apply_update u r) = template_id r" "tenant_id (apply_update u r) = tenant_id r"
  "slug (apply_update u r) = slug r" "version (apply_update u r) = version r"
  "engine (apply_update u r) = engine r" "content (apply_update u r) = content r"
  by (simp_all add: apply_update_def)

lemma updateTemplate_new_version:
  assumes "updateTemplate db c templateId updates = Inr res"
    and "content_upd updates \<noteq> None \<or> engine_upd updates \<noteq> None"
  shows "\<exists>cur row. cur \<in> set (templates db) \<and> template_id cur = nat_toString templateId
             \<and> templates (store_after res) = templates db @ [row]
             \<and> tenant_id row = tenant_id cur \<and> slug row = slug cur
             \<and> version row = Suc (Max (version ` {r \<in> set (templates db).
                                  tenant_id r = tenant_id cur \<and> slug r = slug cur}))
             \<and> versionCreated res"
proof -
  from assms(1) obtain cur where f: "find (\<lambda>r. template_id r = nat_toString templateId) (templates db) = Some cur"
    by (auto simp: updateTemplate_def split: option.splits)
  then have cur: "cur \<in> set (templates db)" "template_id cur = nat_toString templateId"
    using find_id by blast+
  let ?row = "new_version_row cur updates (next_template_id db)
                (next_version (templates db) (tenant_id cur) (slug cur))"
  from assms f have res: "templates (store_after res) = templates db @ [?row]" "versionCreated res"
    by (auto simp: updateTemplate_def Let_def split: option.splits if_splits)
  have "tenant_id ?row = tenant_id cur" "slug ?row = slug cur"
    "version ?row = next_version (templates db) (tenant_id cur) (slug cur)"
    by (simp_all add: new_version_row_def)
  then have "cur \<in> set (templates db) \<and> template_id cur = nat_toString templateId
             \<and> templates (store_after res) = templates db @ [?row]
             \<and> tenant_id ?row = tenant_id cur \<and> slug ?row = slug cur
             \<and> version ?row = Suc (Max (version ` {r \<in> set (templates db).
                                  tenant_id r = tenant_id cur \<and> slug r = slug cur}))
             \<and> versionCreated res"
    using cur res next_version_Max [OF cur(1)] by simp
  then show ?thesis by blast
qed

lemma updateTemplate_in_place:
  assumes "updateTemplate db c templateId updates = Inr res"
    and "content_upd updates = None" "engine_upd updates = None"
  shows "templates (store_after res)
           = map (\<lambda>r. if template_id r = nat_toString templateId
                       then apply_update updates r else r) (templates db)"
    and "\<not> versionCreated res"
  using assms by (auto simp: updateTemplate_def split: option.splits if_splits)

text \<open>
  Claim C4, as amended. An accepted update that carries content or engine inserts one
  new row, for the tenant and slug of the addressed row and with the highest version
  of that tenant and slug plus one, and leaves every existing row as it was. An
  accepted update that carries neither changes no row count and no version: every row
  keeps its identifier, tenant, slug, version, engine and content, rows other than the
  addressed one are untouched, and the addressed row takes the name, subject template,
  plaintext template and active flag of the request in place.
\<close>

theorem updateTemplate_versioning:
  assumes "updateTemplate db c templateId updates = Inr res"
  shows "(content_upd updates \<noteq> None \<or> engine_upd updates \<noteq> None \<longrightarrow>
            (\<exists>cur row. cur \<in> set (templates db) \<and> template_id cur = nat_toString templateId
               \<and> templates (store_after res) = templates db @ [row]
               \<and> tenant_id row = tenant_id cur \<and> slug row = slug cur
               \<and> version row = Suc (Max (version ` {r \<in> set (templates db).
                                    tenant_id r = tenant_id cur \<and> slug r = slug cur}))
               \<and> versionCreated res))
       \<and> (content_upd updates = None \<and> engine_upd updates = None \<longrightarrow>
            length (templates (store_after res)) = length (templates db)
            \<and> \<not> versionCreated res
            \<and> (\<forall>i<length (templates db).
                  template_id (templates (store_after res) ! i) = template_id (templates db ! i)
                  \<and> tenant_id (templates (store_after res) ! i) = tenant_id (templates db ! i)
                  \<and> slug (templates (store_after res) ! i) = slug (templates db ! i)
                  \<and> version (templates (store_after res) ! i) = version (templates db ! i)
                  \<and> engine (templates (store_after res) ! i) = engine (templates db ! i)
                  \<and> content (templates (store_after res) ! i) = content (templates db ! i)
                  \<and> templates (store_after res) ! i =
                      (if template_id (templates db ! i) = nat_toString templateId
                       then apply_update updates (templates db ! i) else templates db ! i)))"
proof (intro conjI impI)
  assume "content_upd updates \<noteq> None \<or> engine_upd updates \<noteq> None"
  then show "\<exists>cur row. cur \<in> set (templates db) \<and> template_id cur = nat_toString templateId
               \<and> templates (store_after res) = templates db @ [row]
               \<and> tenant_id row = tenant_id cur \<and> slug row = slug cur
               \<and> version row = Suc (Max (version ` {r \<in> set (templates db).
                                    tenant_id r = tenant_id cur \<and> slug r = slug cur}))
               \<and> versionCreated res"
    by (rule updateTemplate_new_version [OF assms])
next
  assume a: "content_upd updates = None \<and> engine_upd updates = None"
  note ip = updateTemplate_in_place [OF assms conjunct1 [OF a] conjunct2 [OF a]]
  show "length (templates (store_after res)) = length (templates db)" by (simp add: ip(1))
  show "\<not> versionCreated res" by (rule ip(2))
  show "\<forall>i<length (templates db).
                  template_id (templates (store_after res) ! i) = template_id (templates db ! i)
                  \<and> tenant_id (templates (store_after res) ! i) = tenant_id (templates db ! i)
                  \<and> slug (templates (store_after res) ! i) = slug (templates db ! i)
                  \<and> version (templates (store_after res) ! i) = version (templates db ! i)
                  \<and> engine (templates (store_after res) ! i) = engine (templates db ! i)
                  \<and> content (templates (store_after res) ! i) = content (templates db ! i)
                  \<and> templates (store_after res) ! i =
                      (if template_id (templates db ! i) = nat_toString templateId
                       then apply_update updates (templates db ! i) else templates db ! i)"
    by (simp add: ip(1) apply_update_keeps)
qed

lemma nat_toString_small: "nat_toString 1 = ''1''" "nat_toString 2 = ''2''" "nat_toString (Suc 0) = ''1''"
  by (simp_all add: nat_toString_def to_digits.simps digit_char_def)

lemma sample_update_subject:
  "updateTemplate sample_store Map.empty 1 edit_subject_request
   = Inr \<lparr>store_after = \<lparr>templates = [sample_template\<lparr>subject_template := ''Changed''\<rparr>],
                          next_template_id = 2\<rparr>,
          cache_after = Map.empty, versionCreated = False\<rparr>"
  by (simp add: updateTemplate_def validate_update_def apply_update_def sample_template_def
      sample_store_def edit_subject_request_def nat_toString_small)

lemma sample_update_content:
  "updateTemplate sample_store Map.empty 1 edit_content_request
   = Inr \<lparr>store_after =
            \<lparr>templates = [sample_template,
                           sample_template\<lparr>template_id := ''2'', content := ''<p>New</p>'',
                                           version := 2\<rparr>],
             next_template_id = 3\<rparr>,
          cache_after = Map.empty, versionCreated = True\<rparr>"
  by (simp add: updateTemplate_def validate_update_def new_version_row_def next_version_def
      or_else_def sample_template_def sample_store_def edit_content_request_def
      nat_toString_small Let_def)

text \<open>
  The theorem at the sample store and a request that edits the content: the new row
  is version 2.
\<close>

theorem updateTemplate_versioning_witness:
  "updateTemplate sample_store Map.empty 1 edit_content_request
   = Inr \<lparr>store_after =
            \<lparr>templates = [sample_template,
                           sample_template\<lparr>template_id := ''2'', content := ''<p>New</p>'',
                                           version := 2\<rparr>],
             next_template_id = 3\<rparr>,
          cache_after = Map.empty, versionCreated = True\<rparr>
   \<and> content_upd edit_content_request = Some ''<p>New</p>''
   \<and> (\<exists>cur row. cur \<in> set (templates sample_store) \<and> template_id cur = nat_toString 1
          \<and> [sample_template,
              sample_template\<lparr>template_id := ''2'', content := ''<p>New</p>'', version := 2\<rparr>]
             = templates sample_store @ [row]
          \<and> version row = Suc (Max (version ` {r \<in> set (templates sample_store).
                                  tenant_id r = tenant_id cur \<and> slug r = slug cur})))"
proof -
  have c: "content_upd edit_content_request = Some ''<p>New</p>''"
    by (simp add: edit_content_request_def)
  then have "content_upd edit_content_request \<noteq> None \<or> engine_upd edit_content_request \<noteq> None"
    by simp
  with updateTemplate_versioning [OF sample_update_content, THEN conjunct1]
  obtain cur row where "cur \<in> set (templates sample_store)" "template_id cur = nat_toString 1"
    and "[sample_template,
          sample_template\<lparr>template_id := ''2'', content := ''<p>New</p>'', version := 2\<rparr>]
         = templates sample_store @ [row]"
    and "version row = Suc (Max (version ` {r \<in> set (templates sample_store).
                                  tenant_id r = tenant_id cur \<and> slug r = slug cur}))"
    by force
  then show ?thesis using sample_update_content c by blast
qed

text \<open>
  Claim C4 as stated fails: a request that edits only the subject template changes the
  subject of the existing row in place and creates no new version.
\<close>

theorem updateTemplate_subject_counterexample:
  "updateTemplate sample_store Map.empty 1 edit_subject_request
   = Inr \<lparr>store_after = \<lparr>templates = [sample_template\<lparr>subject_template := ''Changed''\<rparr>],
                          next_template_id = 2\<rparr>,
          cache_after = Map.empty, versionCreated = False\<rparr>
   \<and> content_upd edit_subject_request = None \<and> engine_upd edit_subject_request = None
   \<and> subjectTemplate edit_subject_request = Some ''Changed''
   \<and> templates sample_store = [sample_template]
   \<and> subject_template sample_template = ''Hello''"
  using sample_update_subject
  by (simp add: sample_template_def sample_store_def edit_subject_request_def)


section \<open>Properties of the dispatch pipeline\<close>


lemma send_with_retry_run:
  assumes "send_with_retry E m a w = (info, lastError, w')"
  shows "\<exists>n. sent_mail w' = sent_mail w @ replicate n m
           \<and> sleeps w' = sleeps w @ map (retry_delay E) [a..<a + n - 1]
           \<and> logs w' = logs w \<and> rstate w' = rstate w
           \<and> int n \<le> max (RETRY_MAX_ATTEMPTS E + 1 - int a) 0
           \<and> (\<forall>k. a \<le> k \<and> k < a + n - 1 \<longrightarrow>
                  (\<exists>err. sendMail E k m = Inl err \<and> shouldRetry E err))
           \<and> (n = 0 \<longrightarrow> info = None \<and> lastError = None \<and> RETRY_MAX_ATTEMPTS E < int a)
           \<and> (0 < n \<longrightarrow>
                 (case sendMail E (a + n - 1) m of
                    Inr i \<Rightarrow> info = Some i \<and> lastError = None
                  | Inl err \<Rightarrow> info = None \<and> lastError = Some err
                      \<and> (RETRY_MAX_ATTEMPTS E \<le> int (a + n - 1) \<or> \<not> shouldRetry E err)))"
  using assms
proof (induction E m a w arbitrary: info lastError w' rule: send_with_retry.induct)
  case (1 E m a w)
  show ?case
  proof (cases "int a \<le> RETRY_MAX_ATTEMPTS E")
    case False
    with "1.prems" have "info = None" "lastError = None" "w' = w"
      by (simp_all add: send_with_retry.simps)
    with False show ?thesis by (intro exI [of _ 0]) auto
  next
    case le: True
    let ?w1 = "w\<lparr>sent_mail := sent_mail w @ [m]\<rparr>"
    show ?thesis
    proof (cases "sendMail E a m")
      case (Inr i)
      with le "1.prems" have "info = Some i" "lastError = None" "w' = ?w1"
        by (simp_all add: send_with_retry.simps Let_def)
      with le Inr show ?thesis by (intro exI [of _ 1]) auto
    next
      case (Inl err)
      show ?thesis
      proof (cases "int a \<ge> RETRY_MAX_ATTEMPTS E \<or> \<not> shouldRetry E err")
        case True
        with le Inl "1.prems" have "info = None" "lastError = Some err" "w' = ?w1"
          by (simp_all add: send_with_retry.simps Let_def)
        with le Inl True show ?thesis by (intro exI [of _ 1]) auto
      next
        case False
        let ?w2 = "?w1\<lparr>sleeps := sleeps ?w1 @ [RETRY_BASE_DELAY_MS E * 2 ^ (a - 1)]\<rparr>"
        from le Inl False "1.prems"
        have rec: "send_with_retry E m (a + 1) ?w2 = (info, lastError, w')"
          by (subst (asm) send_with_retry.simps) (simp add: Let_def)
        from "1.IH" [OF le refl Inl False rec]
        obtain n where n: "sent_mail w' = sent_mail ?w2 @ replicate n m"
          "sleeps w' = sleeps ?w2 @ map (retry_delay E) [a + 1..<a + 1 + n - 1]"
          "logs w' = logs ?w2" "rstate w' = rstate ?w2"
          "int n \<le> max (RETRY_MAX_ATTEMPTS E + 1 - int (a + 1)) 0"
          "\<forall>k. a + 1 \<le> k \<and> k < a + 1 + n - 1 \<longrightarrow>
                  (\<exists>err. sendMail E k m = Inl err \<and> shouldRetry E err)"
          "n = 0 \<longrightarrow> info = None \<and> lastError = None \<and> RETRY_MAX_ATTEMPTS E < int (a + 1)"
          "0 < n \<longrightarrow>
                 (case sendMail E (a + 1 + n - 1) m of
                    Inr i \<Rightarrow> info = Some i \<and> lastError = None
                  | Inl err \<Rightarrow> info = None \<and> lastError = Some err
                      \<and> (RETRY_MAX_ATTEMPTS E \<le> int (a + 1 + n - 1) \<or> \<not> shouldRetry E err))"
          by blast
        from False have lt: "int a < RETRY_MAX_ATTEMPTS E" by simp
        have npos: "0 < n"
          using n(7) lt by (cases n) auto
        have upt: "[a..<a + Suc n - 1] = a # [a + 1..<a + 1 + n - 1]"
          using npos by (simp add: upt_rec)
        have "sent_mail w' = sent_mail w @ replicate (Suc n) m"
          using n(1) by (simp add: replicate_app_Cons_same)
        moreover have "sleeps w' = sleeps w @ map (retry_delay E) [a..<a + Suc n - 1]"
          using n(2) upt by (simp add: retry_delay_def)
        moreover have "logs w' = logs w" "rstate w' = rstate w" using n(3,4) by simp_all
        moreover have "int (Suc n) \<le> max (RETRY_MAX_ATTEMPTS E + 1 - int a) 0"
          using n(5) lt by simp
        moreover have "\<forall>k. a \<le> k \<and> k < a + Suc n - 1 \<longrightarrow>
                  (\<exists>err. sendMail E k m = Inl err \<and> shouldRetry E err)"
        proof (intro allI impI)
          fix k assume k: "a \<le> k \<and> k < a + Suc n - 1"
          show "\<exists>err. sendMail E k m = Inl err \<and> shouldRetry E err"
          proof (cases "k = a")
            case True
            with Inl False show ?thesis by auto
          next
            case False
            with k have "a + 1 \<le> k \<and> k < a + 1 + n - 1" by auto
            with n(6) show ?thesis by blast
          qed
        qed
        moreover have "case sendMail E (a + Suc n - 1) m of
                    Inr i \<Rightarrow> info = Some i \<and> lastError = None
                  | Inl err \<Rightarrow> info = None \<and> lastError = Some err
                      \<and> (RETRY_MAX_ATTEMPTS E \<le> int (a + Suc n - 1) \<or> \<not> shouldRetry E err)"
        proof -
          have "a + 1 + n - 1 = a + Suc n - 1" by simp
          with n(8) npos show ?thesis by (simp only:)
        qed
        ultimately show ?thesis by (intro exI [of _ "Suc n"]) simp
      qed
    qed
  qed
qed




lemma next_log_id_simps [simp]:
  "next_log_id (db_begin db) = next_log_id db"
  "next_log_id (db_commit db) = next_log_id db"
  "next_log_id (db_rollback db) = next_log_id db"
  "next_log_id (mark_sent db i) = next_log_id db"
  "next_log_id (mark_failed db i msg) = next_log_id db"
  "next_log_id (snd (insert_log db t a s)) = next_log_id db + 1"
  "fst (insert_log db t a s) = next_log_id db"
  by (simp_all add: db_begin_def db_commit_def db_rollback_def mark_sent_def mark_failed_def
      insert_log_def split: option.splits)

lemma deliver_run:
  assumes "deliver E tid m w = (res, logId, w')"
  shows "\<exists>n. sent_mail w' = sent_mail w @ replicate n m
           \<and> sleeps w' = sleeps w @ map (retry_delay E) [1..<n]
           \<and> rstate w' = rstate w
           \<and> int n \<le> max (RETRY_MAX_ATTEMPTS E) 0
           \<and> (\<forall>k. 1 \<le> k \<and> k < n \<longrightarrow>
                  (\<exists>err. sendMail E k m = Inl err \<and> shouldRetry E err))
           \<and> (0 < n \<longrightarrow>
                 (case sendMail E n m of
                    Inr i \<Rightarrow> res = Inr i
                  | Inl err \<Rightarrow> res = Inl (TransportError err)
                      \<and> (RETRY_MAX_ATTEMPTS E \<le> int n \<or> \<not> shouldRetry E err)))
           \<and> (nodemailer_available E \<and> 1 \<le> RETRY_MAX_ATTEMPTS E \<longrightarrow> 0 < n)
           \<and> logId = Some (next_log_id (logs w))
           \<and> next_log_id (logs w') = next_log_id (logs w) + 1"
proof -
  obtain i db1 where ins: "insert_log (db_begin (logs w)) tid (mail_to m) (mail_subject m) = (i, db1)"
    by (cases "insert_log (db_begin (logs w)) tid (mail_to m) (mail_subject m)")
  have i: "i = next_log_id (logs w)" and db1: "next_log_id db1 = next_log_id (logs w) + 1"
    using ins next_log_id_simps(6,7) [of "db_begin (logs w)" tid "mail_to m" "mail_subject m"]
    by simp_all
  let ?w1 = "w\<lparr>logs := db1\<rparr>"
  show ?thesis
  proof (cases "nodemailer_available E")
    case False
    with assms ins have "res = Inl (Error ''Email service unavailable'')" "logId = Some i" "w' = ?w1"
      by (simp_all add: deliver_def)
    with False i db1 show ?thesis by (intro exI [of _ 0]) simp
  next
    case True
    obtain info lastError w2 where run: "send_with_retry E m 1 ?w1 = (info, lastError, w2)"
      by (cases "send_with_retry E m 1 ?w1") auto
    from send_with_retry_run [OF run]
    obtain n where n: "sent_mail w2 = sent_mail ?w1 @ replicate n m"
      "sleeps w2 = sleeps ?w1 @ map (retry_delay E) [1..<1 + n - 1]"
      "logs w2 = logs ?w1" "rstate w2 = rstate ?w1"
      "int n \<le> max (RETRY_MAX_ATTEMPTS E + 1 - int 1) 0"
      "\<forall>k. 1 \<le> k \<and> k < 1 + n - 1 \<longrightarrow> (\<exists>err. sendMail E k m = Inl err \<and> shouldRetry E err)"
      "n = 0 \<longrightarrow> info = None \<and> lastError = None \<and> RETRY_MAX_ATTEMPTS E < int 1"
      "0 < n \<longrightarrow>
         (case sendMail E (1 + n - 1) m of
            Inr i \<Rightarrow> info = Some i \<and> lastError = None
          | Inl err \<Rightarrow> info = None \<and> lastError = Some err
              \<and> (RETRY_MAX_ATTEMPTS E \<le> int (1 + n - 1) \<or> \<not> shouldRetry E err))"
      by blast
    have idx: "1 + n - 1 = n" by simp
    from assms ins True run have res:
      "(res, logId, w') =
         (case (info, lastError, w2) of
            (None, Some lastError, w2) \<Rightarrow> (Inl (TransportError lastError), Some i, w2)
          | (None, None, w2) \<Rightarrow>
              (Inl (TypeError ''Cannot read properties of null (reading 'messageId')''), Some i,
               w2\<lparr>logs := db_commit (mark_sent (logs w2) i)\<rparr>)
          | (Some mid, lastError, w2) \<Rightarrow>
              (Inr mid, Some i, w2\<lparr>logs := db_commit (mark_sent (logs w2) i)\<rparr>))"
      by (simp add: deliver_def)
    have logid: "logId = Some i"
      using res by (auto split: option.splits)
    have frame: "sent_mail w' = sent_mail w2" "sleeps w' = sleeps w2" "rstate w' = rstate w2"
      "next_log_id (logs w') = next_log_id (logs w2)"
      using res by (auto split: option.splits)
    have last: "0 < n \<longrightarrow>
                 (case sendMail E n m of
                    Inr i \<Rightarrow> res = Inr i
                  | Inl err \<Rightarrow> res = Inl (TransportError err)
                      \<and> (RETRY_MAX_ATTEMPTS E \<le> int n \<or> \<not> shouldRetry E err))"
      using n(8) res unfolding idx by (auto split: sum.splits option.splits)
    have pos: "1 \<le> RETRY_MAX_ATTEMPTS E \<longrightarrow> 0 < n"
      using n(7) by auto
    show ?thesis
      using n(1,2,4,5,6) frame last pos logid i db1 n(3) unfolding idx
      by (intro exI [of _ n]) auto
  qed
qed


lemma send_body_cases:
  assumes "send_body E L now tmpl tn body w = (res, logId, w')"
  shows "(logId = None \<and> w' = w \<and> (\<exists>msg c. res = Inl (AppError msg c)))
       \<or> (\<exists>m tid w0 dres. logs w0 = logs w \<and> sent_mail w0 = sent_mail w \<and> sleeps w0 = sleeps w
             \<and> deliver E tid m w0 = (dres, logId, w')
             \<and> (case dres of Inl e \<Rightarrow> res = Inl e
                 | Inr mid \<Rightarrow> (\<exists>r. res = Inr r \<and> messageId r = mid)))"
proof (cases "truthy_str (templateSlug body)")
  case tm: True
  show ?thesis
  proof (cases "\<not> (case templateData body of Some d \<Rightarrow> truthy d | None \<Rightarrow> False)
            \<or> \<not> truthy_addr (to_field body) \<or> tn = None
            \<or> resolveTemplate tmpl (tenant_ident (the tn)) (or_else (templateSlug body) [])
                  (version_field body) = None")
    case True
    with tm assms have "logId = None \<and> w' = w \<and> (\<exists>msg c. res = Inl (AppError msg c))"
      by (auto simp: send_body_def split: option.splits if_splits)
    then show ?thesis by blast
  next
    case False
    then obtain tenant templateRecord where tn: "tn = Some tenant"
      and r: "resolveTemplate tmpl (tenant_ident tenant) (or_else (templateSlug body) [])
                  (version_field body) = Some templateRecord"
      by auto
    obtain renderedContent st' where rc:
      "renderEmailContent L now (rstate w) Template_mode body (Some templateRecord)
         (templateData body) = (renderedContent, st')"
      by (cases "renderEmailContent L now (rstate w) Template_mode body (Some templateRecord)
         (templateData body)")
    let ?w0 = "w\<lparr>rstate := st'\<rparr>"
    from tm False tn r rc assms obtain m dres where
      "deliver E (tenant_ident tenant) m ?w0 = (dres, logId, w')"
      "case dres of Inl e \<Rightarrow> res = Inl e | Inr mid \<Rightarrow> (\<exists>r. res = Inr r \<and> messageId r = mid)"
      by (auto simp: send_body_def Let_def split: prod.splits sum.splits)
    moreover have "logs ?w0 = logs w" "sent_mail ?w0 = sent_mail w" "sleeps ?w0 = sleeps w"
      by simp_all
    ultimately show ?thesis by blast
  qed
next
  case lm: False
  show ?thesis
  proof (cases "\<not> truthy_addr (to_field body) \<or> \<not> truthy_str (subject_field body)
            \<or> \<not> truthy_str (htmlBody body) \<or> tn = None")
    case True
    with lm assms have "logId = None \<and> w' = w \<and> (\<exists>msg c. res = Inl (AppError msg c))"
      by (auto simp: send_body_def split: option.splits if_splits)
    then show ?thesis by blast
  next
    case False
    then obtain tenant where tn: "tn = Some tenant" by auto
    from lm False tn assms obtain m dres where
      "deliver E (tenant_ident tenant) m w = (dres, logId, w')"
      "case dres of Inl e \<Rightarrow> res = Inl e | Inr mid \<Rightarrow> (\<exists>r. res = Inr r \<and> messageId r = mid)"
      by (auto simp: send_body_def Let_def split: prod.splits sum.splits)
    then show ?thesis by blast
  qed
qed

lemma on_failure_frame [simp]:
  "sent_mail (on_failure e l w) = sent_mail w" "sleeps (on_failure e l w) = sleeps w"
  "rstate (on_failure e l w) = rstate w"
  by (simp_all add: on_failure_def Let_def split: option.splits)

lemma shouldRetry_iff:
  "shouldRetry E err \<longleftrightarrow>
     code err \<in> JStr ` {''ETIMEDOUT'', ''ESOCKET'', ''ECONNRESET'', ''EAI_AGAIN''}
     \<or> (truthy (responseCode err)
          \<and> js_Number (string_to_number E) (responseCode err) \<in> Some ` {421, 450, 451, 452})
     \<or> (\<not> truthy (responseCode err) \<and> truthy (code err)
          \<and> js_Number (string_to_number E) (code err) \<in> Some ` {421, 450, 451, 452})"
  unfolding shouldRetry_def transientCodes_def Let_def by auto

lemma shouldRetry_spec:
  "shouldRetry E err \<Longrightarrow> spec_transient E err \<or> code err = JStr ''ESOCKET''"
  unfolding shouldRetry_iff spec_transient_def by auto




lemma default_delays:
  assumes "RETRY_BASE_DELAY_MS E = 500" "n \<le> 3"
  shows "map (retry_delay E) [1..<n] \<in> {[], [500], [500, 1000]}"
proof -
  from assms(2) have "n = 0 \<or> n = 1 \<or> n = 2 \<or> n = 3" by auto
  then show ?thesis
    using assms(1) by (auto simp: retry_delay_def upt_rec)
qed

text \<open>
  Claim C2, as amended. A dispatch hands one mail to the transport some number of
  times, at most the retry ceiling (3 by default). The delays slept are
  \<open>baseDelay * 2 ^ (k - 1)\<close> after each attempt \<open>k\<close> but the last, so none comes before
  the first attempt, and with the defaults they are 500 and then 1000 milliseconds.
  Every attempt but the last failed with an error the retry test accepts. When the last
  attempt failed, its error is what the caller gets, and either the ceiling is reached
  or the retry test rejects the error; when it succeeded, the caller gets its message
  identifier. The retry test accepts exactly the codes \<open>ETIMEDOUT\<close>, \<open>ESOCKET\<close>,
  \<open>ECONNRESET\<close> and \<open>EAI_AGAIN\<close>, and a response code (or, when there is none, a
  code) whose number is 421, 450, 451 or 452; so beyond the words of the claim it
  accepts only \<open>ESOCKET\<close>.
\<close>

theorem sendEmail_retry_policy:
  assumes "sendEmail E L now tmpl tn body w = (res, w')"
  shows "(\<exists>n m. sent_mail w' = sent_mail w @ replicate n m
           \<and> int n \<le> max (RETRY_MAX_ATTEMPTS E) 0
           \<and> sleeps w' = sleeps w @ map (retry_delay E) [1..<n]
           \<and> (\<forall>k. 1 \<le> k \<and> k < n \<longrightarrow>
                  (\<exists>err. sendMail E k m = Inl err \<and> shouldRetry E err))
           \<and> (\<forall>err. 0 < n \<and> sendMail E n m = Inl err \<longrightarrow>
                  res = Inl (TransportError err)
                  \<and> (RETRY_MAX_ATTEMPTS E \<le> int n \<or> \<not> shouldRetry E err))
           \<and> (\<forall>mid. 0 < n \<and> sendMail E n m = Inr mid \<longrightarrow>
                  (\<exists>r. res = Inr r \<and> messageId r = mid))
           \<and> (RETRY_MAX_ATTEMPTS E = 3 \<and> RETRY_BASE_DELAY_MS E = 500 \<longrightarrow>
                  n \<le> 3 \<and> map (retry_delay E) [1..<n] \<in> {[], [500], [500, 1000]}))
       \<and> (\<forall>err. shouldRetry E err \<longleftrightarrow>
             code err \<in> JStr ` {''ETIMEDOUT'', ''ESOCKET'', ''ECONNRESET'', ''EAI_AGAIN''}
             \<or> (truthy (responseCode err)
                  \<and> js_Number (string_to_number E) (responseCode err) \<in> Some ` {421, 450, 451, 452})
             \<or> (\<not> truthy (responseCode err) \<and> truthy (code err)
                  \<and> js_Number (string_to_number E) (code err) \<in> Some ` {421, 450, 451, 452}))
       \<and> (\<forall>err. shouldRetry E err \<longrightarrow> spec_transient E err \<or> code err = JStr ''ESOCKET'')"
proof -
  obtain bres logId wb where sb: "send_body E L now tmpl tn body w = (bres, logId, wb)"
    by (cases "send_body E L now tmpl tn body w") auto
  have res: "res = bres" and frame: "sent_mail w' = sent_mail wb" "sleeps w' = sleeps wb"
    using assms sb by (auto simp: sendEmail_def split: sum.splits)
  have run: "\<exists>n m. sent_mail w' = sent_mail w @ replicate n m
           \<and> int n \<le> max (RETRY_MAX_ATTEMPTS E) 0
           \<and> sleeps w' = sleeps w @ map (retry_delay E) [1..<n]
           \<and> (\<forall>k. 1 \<le> k \<and> k < n \<longrightarrow>
                  (\<exists>err. sendMail E k m = Inl err \<and> shouldRetry E err))
           \<and> (\<forall>err. 0 < n \<and> sendMail E n m = Inl err \<longrightarrow>
                  res = Inl (TransportError err)
                  \<and> (RETRY_MAX_ATTEMPTS E \<le> int n \<or> \<not> shouldRetry E err))
           \<and> (\<forall>mid. 0 < n \<and> sendMail E n m = Inr mid \<longrightarrow>
                  (\<exists>r. res = Inr r \<and> messageId r = mid))
           \<and> (RETRY_MAX_ATTEMPTS E = 3 \<and> RETRY_BASE_DELAY_MS E = 500 \<longrightarrow>
                  n \<le> 3 \<and> map (retry_delay E) [1..<n] \<in> {[], [500], [500, 1000]})"
  proof -
    from send_body_cases [OF sb] consider
      (none) "wb = w"
      | (sent) m tid w0 dres where "logs w0 = logs w" "sent_mail w0 = sent_mail w"
          "sleeps w0 = sleeps w" "deliver E tid m w0 = (dres, logId, wb)"
          "case dres of Inl e \<Rightarrow> bres = Inl e
                 | Inr mid \<Rightarrow> (\<exists>r. bres = Inr r \<and> messageId r = mid)"
      by blast
    then show ?thesis
    proof cases
      case none
      with frame show ?thesis
        by (intro exI [of _ 0]) (simp add: default_delays)
    next
      case sent
      from deliver_run [OF sent(4)] obtain n where n:
        "sent_mail wb = sent_mail w0 @ replicate n m"
        "sleeps wb = sleeps w0 @ map (retry_delay E) [1..<n]"
        "int n \<le> max (RETRY_MAX_ATTEMPTS E) 0"
        "\<forall>k. 1 \<le> k \<and> k < n \<longrightarrow> (\<exists>err. sendMail E k m = Inl err \<and> shouldRetry E err)"
        "0 < n \<longrightarrow>
                 (case sendMail E n m of
                    Inr i \<Rightarrow> dres = Inr i
                  | Inl err \<Rightarrow> dres = Inl (TransportError err)
                      \<and> (RETRY_MAX_ATTEMPTS E \<le> int n \<or> \<not> shouldRetry E err))"
        by blast
      have a: "\<forall>err. 0 < n \<and> sendMail E n m = Inl err \<longrightarrow>
                  res = Inl (TransportError err)
                  \<and> (RETRY_MAX_ATTEMPTS E \<le> int n \<or> \<not> shouldRetry E err)"
        using n(5) sent(5) res by auto
      have b: "\<forall>mid. 0 < n \<and> sendMail E n m = Inr mid \<longrightarrow>
                  (\<exists>r. res = Inr r \<and> messageId r = mid)"
        using n(5) sent(5) res by auto
      have d: "RETRY_MAX_ATTEMPTS E = 3 \<and> RETRY_BASE_DELAY_MS E = 500 \<longrightarrow>
                  n \<le> 3 \<and> map (retry_delay E) [1..<n] \<in> {[], [500], [500, 1000]}"
        using n(3) default_delays [of E n] by auto
      show ?thesis
        using n(1,2,3,4) a b d frame sent(2,3)
        by (intro exI [of _ n] exI [of _ m]) simp
    qed
  qed
  show ?thesis
    using run shouldRetry_iff [of E] shouldRetry_spec [of E] by blast
qed




lemma legacy_body:
  "send_body E L now tmpl (Some sample_tenant) legacy_request w
     = (case deliver E ''1'' legacy_mail w of
          (Inl e, l, w') \<Rightarrow> (Inl e, l, w')
        | (Inr mid, l, w') \<Rightarrow> (Inr \<lparr>messageId = mid, template_used = None\<rparr>, l, w'))"
  by (simp add: send_body_def legacy_request_def sample_tenant_def legacy_mail_def truthy_str_def
      truthy_addr_def or_else_def to_list_def copy_list_def optional_list_def join_addresses_def
      renderTemplate_def)

lemma default_env_sel [simp]:
  "nodemailer_available (default_env f)" "RETRY_MAX_ATTEMPTS (default_env f) = 3"
  "RETRY_BASE_DELAY_MS (default_env f) = 500" "sendMail (default_env f) = f"
  "string_to_number (default_env f) = (\<lambda>s. None)"
  by (simp_all add: default_env_def)

lemma sample_errors_retry [simp]:
  "shouldRetry (default_env f) socket_error" "shouldRetry (default_env f) timeout_error"
  "\<not> shouldRetry (default_env f) auth_error"
  by (simp_all add: shouldRetry_def transientCodes_def socket_error_def timeout_error_def
      auth_error_def)

lemma retry_once:
  assumes "f (Suc 0) m = Inl err" "shouldRetry (default_env f) err" "f (Suc (Suc 0)) m = Inr i"
  shows "send_with_retry (default_env f) m (Suc 0) w
     = (Some i, None, w\<lparr>sent_mail := sent_mail w @ [m, m], sleeps := sleeps w @ [500]\<rparr>)"
  using assms by (simp add: send_with_retry.simps Let_def)

lemma retry_twice:
  assumes "f (Suc 0) m = Inl err" "shouldRetry (default_env f) err"
    "f (Suc (Suc 0)) m = Inl err'" "shouldRetry (default_env f) err'" "f (Suc (Suc (Suc 0))) m = Inr i"
  shows "send_with_retry (default_env f) m (Suc 0) w
     = (Some i, None,
        w\<lparr>sent_mail := sent_mail w @ [m, m, m], sleeps := sleeps w @ [500, 1000]\<rparr>)"
  using assms by (simp add: send_with_retry.simps Let_def)

lemma retry_abort:
  assumes "f (Suc 0) m = Inl err" "\<not> shouldRetry (default_env f) err"
  shows "send_with_retry (default_env f) m (Suc 0) w
     = (None, Some err, w\<lparr>sent_mail := sent_mail w @ [m]\<rparr>)"
  using assms by (simp add: send_with_retry.simps Let_def)

lemma retry_exhausted:
  assumes "f (Suc 0) m = Inl err" "shouldRetry (default_env f) err"
    "f (Suc (Suc 0)) m = Inl err'" "shouldRetry (default_env f) err'" "f (Suc (Suc (Suc 0))) m = Inl err''"
  shows "send_with_retry (default_env f) m (Suc 0) w
     = (None, Some err'',
        w\<lparr>sent_mail := sent_mail w @ [m, m, m], sleeps := sleeps w @ [500, 1000]\<rparr>)"
  using assms by (simp add: send_with_retry.simps Let_def)


lemmas eval_deliver = deliver_def insert_log_def db_begin_def db_commit_def db_rollback_def
  mark_sent_def mark_failed_def on_failure_def error_text_def sendEmail_def empty_world_def

lemma send_socket:
  "sendEmail (default_env (\<lambda>k m. if k = 1 then Inl socket_error else Inr ''id-1'')) L now tmpl
       (Some sample_tenant) legacy_request empty_world
   = (Inr \<lparr>messageId = ''id-1'', template_used = None\<rparr>,
      \<lparr>logs = \<lparr>log_rows = [\<lparr>log_id = 1, log_tenant = ''1'', to_address = ''ann@example.com'',
                              log_subject = ''Hello'', status = Sent, error_message = None,
                              sent_at = True\<rparr>],
               open_txn = None, next_log_id = 2\<rparr>,
       rstate = \<lparr>cache = Map.empty, compiles = 0\<rparr>,
       sent_mail = [legacy_mail, legacy_mail], sleeps = [500]\<rparr>)"
  by (simp add: legacy_body eval_deliver retry_once [where err = socket_error] legacy_mail_def)

lemma send_timeouts:
  "sendEmail (default_env (\<lambda>k m. if k < 3 then Inl timeout_error else Inr ''id-1'')) L now tmpl
       (Some sample_tenant) legacy_request empty_world
   = (Inr \<lparr>messageId = ''id-1'', template_used = None\<rparr>,
      \<lparr>logs = \<lparr>log_rows = [\<lparr>log_id = 1, log_tenant = ''1'', to_address = ''ann@example.com'',
                              log_subject = ''Hello'', status = Sent, error_message = None,
                              sent_at = True\<rparr>],
               open_txn = None, next_log_id = 2\<rparr>,
       rstate = \<lparr>cache = Map.empty, compiles = 0\<rparr>,
       sent_mail = [legacy_mail, legacy_mail, legacy_mail], sleeps = [500, 1000]\<rparr>)"
  by (simp add: legacy_body eval_deliver retry_twice [where err = timeout_error and err' = timeout_error] legacy_mail_def)

lemma send_auth:
  "sendEmail (default_env (\<lambda>k m. Inl auth_error)) L now tmpl
       (Some sample_tenant) legacy_request empty_world
   = (Inl (TransportError auth_error),
      \<lparr>logs = \<lparr>log_rows = [], open_txn = None, next_log_id = 2\<rparr>,
       rstate = \<lparr>cache = Map.empty, compiles = 0\<rparr>,
       sent_mail = [legacy_mail], sleeps = []\<rparr>)"
  by (simp add: legacy_body eval_deliver retry_abort [where err = auth_error] legacy_mail_def)

lemma send_exhausted:
  "sendEmail (default_env (\<lambda>k m. Inl timeout_error)) L now tmpl
       (Some sample_tenant) legacy_request empty_world
   = (Inl (TransportError timeout_error),
      \<lparr>logs = \<lparr>log_rows = [], open_txn = None, next_log_id = 2\<rparr>,
       rstate = \<lparr>cache = Map.empty, compiles = 0\<rparr>,
       sent_mail = [legacy_mail, legacy_mail, legacy_mail], sleeps = [500, 1000]\<rparr>)"
  by (simp add: legacy_body eval_deliver retry_exhausted [where err = timeout_error and err' = timeout_error and err'' = timeout_error] legacy_mail_def)




text \<open>
  The theorem at a transport that times out twice and then accepts the mail: three
  calls, delays of 500 and 1000 milliseconds, and the dispatch succeeds.
\<close>

theorem sendEmail_retry_policy_witness:
  "sendEmail (default_env (\<lambda>k m. if k < 3 then Inl timeout_error else Inr ''id-1'')) plain_libs 0 []
       (Some sample_tenant) legacy_request empty_world
   = (Inr \<lparr>messageId = ''id-1'', template_used = None\<rparr>,
      \<lparr>logs = \<lparr>log_rows = [\<lparr>log_id = 1, log_tenant = ''1'', to_address = ''ann@example.com'',
                              log_subject = ''Hello'', status = Sent, error_message = None,
                              sent_at = True\<rparr>],
               open_txn = None, next_log_id = 2\<rparr>,
       rstate = \<lparr>cache = Map.empty, compiles = 0\<rparr>,
       sent_mail = [legacy_mail, legacy_mail, legacy_mail], sleeps = [500, 1000]\<rparr>)
   \<and> (\<exists>n m. [legacy_mail, legacy_mail, legacy_mail] = sent_mail empty_world @ replicate n m
          \<and> int n \<le> 3)"
proof -
  let ?E = "default_env (\<lambda>k m. if k < 3 then Inl timeout_error else Inr ''id-1'')"
  note run = send_timeouts [of plain_libs 0 "[]"]
  from sendEmail_retry_policy [OF run, THEN conjunct1]
  obtain n m where "[legacy_mail, legacy_mail, legacy_mail] = sent_mail empty_world @ replicate n m"
    and "int n \<le> max (RETRY_MAX_ATTEMPTS ?E) 0"
    by auto
  then have "\<exists>n m. [legacy_mail, legacy_mail, legacy_mail]
                 = sent_mail empty_world @ replicate n m \<and> int n \<le> 3"
    by auto
  with run show ?thesis by (rule conjI)
qed

text \<open>
  Claim C2 as stated fails: a first attempt that fails with the code \<open>ESOCKET\<close> is
  retried, although the failure is none of timeout, connection reset, temporary DNS
  failure or a temporary SMTP code.
\<close>

theorem retry_on_socket_error_counterexample:
  "sendEmail (default_env (\<lambda>k m. if k = 1 then Inl socket_error else Inr ''id-1'')) plain_libs 0 []
       (Some sample_tenant) legacy_request empty_world
   = (Inr \<lparr>messageId = ''id-1'', template_used = None\<rparr>,
      \<lparr>logs = \<lparr>log_rows = [\<lparr>log_id = 1, log_tenant = ''1'', to_address = ''ann@example.com'',
                              log_subject = ''Hello'', status = Sent, error_message = None,
                              sent_at = True\<rparr>],
               open_txn = None, next_log_id = 2\<rparr>,
       rstate = \<lparr>cache = Map.empty, compiles = 0\<rparr>,
       sent_mail = [legacy_mail, legacy_mail], sleeps = [500]\<rparr>)
   \<and> \<not> spec_transient (default_env (\<lambda>k m. if k = 1 then Inl socket_error else Inr ''id-1''))
         socket_error"
proof -
  have "\<not> spec_transient (default_env (\<lambda>k m. if k = 1 then Inl socket_error else Inr ''id-1''))
         socket_error"
    by (simp add: spec_transient_def socket_error_def)
  with send_socket [of plain_libs 0 "[]"] show ?thesis by (rule conjI)
qed


lemma deliver_transport_error:
  assumes "deliver E tid m w = (Inl (TransportError err), logId, w')"
  shows "logs w' = snd (insert_log (db_begin (logs w)) tid (mail_to m) (mail_subject m))
       \<and> logId = Some (next_log_id (logs w))"
proof -
  obtain i db1 where ins: "insert_log (db_begin (logs w)) tid (mail_to m) (mail_subject m) = (i, db1)"
    by (cases "insert_log (db_begin (logs w)) tid (mail_to m) (mail_subject m)")
  have i: "i = next_log_id (logs w)"
    using ins next_log_id_simps(7) [of "db_begin (logs w)" tid "mail_to m" "mail_subject m"] by simp
  let ?w1 = "w\<lparr>logs := db1\<rparr>"
  obtain info lastError w2 where run: "send_with_retry E m 1 ?w1 = (info, lastError, w2)"
    by (cases "send_with_retry E m 1 ?w1") auto
  from send_with_retry_run [OF run] have l: "logs w2 = db1" by auto
  from assms ins run have "w' = w2 \<and> logId = Some i"
    by (auto simp: deliver_def Let_def split: if_splits option.splits)
  with l i ins show ?thesis by simp
qed

text \<open>
  Claim C3 fails on the code. When a dispatch that starts outside a transaction ends
  with the error of the transport, the rows of the log store are the rows it had
  before: the row inserted for the attempt went with the rollback, the update to
  \<open>failed\<close> that follows finds no row of that identifier, and so no row carries the
  failed status or the error text.
\<close>

theorem failed_delivery_leaves_no_log_row:
  assumes "sendEmail E L now tmpl tn body w = (Inl (TransportError err), w')"
    and "open_txn (logs w) = None"
    and "\<forall>r\<in>set (log_rows (logs w)). log_id r < next_log_id (logs w)"
  shows "log_rows (logs w') = log_rows (logs w)
       \<and> (\<forall>r\<in>set (log_rows (logs w')). log_id r \<noteq> next_log_id (logs w))
       \<and> next_log_id (logs w') = next_log_id (logs w) + 1"
proof -
  obtain bres logId wb where sb: "send_body E L now tmpl tn body w = (bres, logId, wb)"
    by (cases "send_body E L now tmpl tn body w") auto
  from assms(1) sb have bres: "bres = Inl (TransportError err)"
    and w': "w' = on_failure (TransportError err) logId wb"
    by (auto simp: sendEmail_def split: sum.splits)
  from send_body_cases [OF sb] bres obtain m tid w0 dres where w0: "logs w0 = logs w"
    and d0: "deliver E tid m w0 = (dres, logId, wb)"
    and dres: "case dres of Inl e \<Rightarrow> bres = Inl e
                 | Inr mid \<Rightarrow> (\<exists>r. bres = Inr r \<and> messageId r = mid)"
    by auto
  from dres bres have "dres = Inl (TransportError err)"
    by (cases dres) auto
  with d0 have d: "deliver E tid m w0 = (Inl (TransportError err), logId, wb)" by simp
  from deliver_transport_error [OF d] w0
  have wb: "logs wb = snd (insert_log (db_begin (logs w)) tid (mail_to m) (mail_subject m))"
    and lid: "logId = Some (next_log_id (logs w))" by simp_all
  let ?i = "next_log_id (logs w)"
  have rb: "db_rollback (logs wb) = (logs w)\<lparr>next_log_id := ?i + 1\<rparr>"
    using wb assms(2) by (simp add: db_rollback_def insert_log_def db_begin_def)
  have mf: "mark_failed ((logs w)\<lparr>next_log_id := ?i + 1\<rparr>) ?i msg = (logs w)\<lparr>next_log_id := ?i + 1\<rparr>" for msg
  proof -
    have "map (\<lambda>r. if log_id r = ?i then r\<lparr>status := Failed, error_message := Some msg\<rparr> else r)
            (log_rows (logs w)) = log_rows (logs w)"
      using assms(3) by (intro map_idI) auto
    then show ?thesis by (simp add: mark_failed_def)
  qed
  have "logs w' = (logs w)\<lparr>next_log_id := ?i + 1\<rparr>"
    using w' lid rb mf by (simp add: on_failure_def Let_def)
  then show ?thesis using assms(3) by auto
qed

text \<open>
  A permanent failure on the first attempt, and three timeouts in a row: the caller
  gets the error of the transport and the log store holds no row.
\<close>

theorem failed_delivery_leaves_no_log_row_witness:
  "sendEmail (default_env (\<lambda>k m. Inl auth_error)) plain_libs 0 []
       (Some sample_tenant) legacy_request empty_world
   = (Inl (TransportError auth_error),
      \<lparr>logs = \<lparr>log_rows = [], open_txn = None, next_log_id = 2\<rparr>,
       rstate = \<lparr>cache = Map.empty, compiles = 0\<rparr>,
       sent_mail = [legacy_mail], sleeps = []\<rparr>)
   \<and> sendEmail (default_env (\<lambda>k m. Inl timeout_error)) plain_libs 0 []
       (Some sample_tenant) legacy_request empty_world
   = (Inl (TransportError timeout_error),
      \<lparr>logs = \<lparr>log_rows = [], open_txn = None, next_log_id = 2\<rparr>,
       rstate = \<lparr>cache = Map.empty, compiles = 0\<rparr>,
       sent_mail = [legacy_mail, legacy_mail, legacy_mail], sleeps = [500, 1000]\<rparr>)
   \<and> log_rows \<lparr>log_rows = [], open_txn = None, next_log_id = 2\<rparr> = log_rows (logs empty_world)"
proof -
  note run = send_auth [of plain_libs 0 "[]"]
  have "open_txn (logs empty_world) = None"
    "\<forall>r\<in>set (log_rows (logs empty_world)). log_id r < next_log_id (logs empty_world)"
    by (simp_all add: empty_world_def)
  from failed_delivery_leaves_no_log_row [OF run this, THEN conjunct1]
  have "log_rows \<lparr>log_rows = [], open_txn = None, next_log_id = 2\<rparr> = log_rows (logs empty_world)"
    by simp
  with run send_exhausted [of plain_libs 0 "[]"] show ?thesis by blast
qed




lemma fallback_content:
  assumes "truthy d"
    and "TemplateRenderer_renderTemplate L now st templateRecord d None = (Inl e, st')"
  shows "renderEmailContent L now st Template_mode body (Some templateRecord) (Some d)
         = ((legacy_content body)\<lparr>fallback := True\<rparr>, st')"
  using assms by (simp add: renderEmailContent_def)

text \<open>
  Claim C1, as amended. Take a request in template mode that passes validation and
  whose template resolves, and let the render of that template fail. Then the dispatch
  goes on with the legacy rendering of the raw content of the request: the subject of
  the request or \<open>Email\<close>, the substituted \<open>htmlBody\<close> and \<open>textBody\<close> or the empty
  string, each replaced by its override when one is given. This holds whether or not
  the request carries raw content. A log row is inserted, the transport is called when
  the mail library loads and the retry ceiling is at least 1, a transport that accepts
  the mail makes the dispatch succeed, and an error the caller gets is an error of the
  delivery, never the render error.
\<close>

theorem template_render_failure_falls_back:
  assumes tm: "truthy_str (templateSlug body)"
    and td: "templateData body = Some d" "truthy d"
    and rcpt: "truthy_addr (to_field body)"
    and tn: "tn = Some tenant"
    and rs: "resolveTemplate tmpl (tenant_ident tenant) (or_else (templateSlug body) [])
               (version_field body) = Some templateRecord"
    and rf: "TemplateRenderer_renderTemplate L now (rstate w) templateRecord d None = (Inl e, st')"
    and run: "sendEmail E L now tmpl tn body w = (res, w')"
  shows "\<exists>n m. sent_mail w' = sent_mail w @ replicate n m
           \<and> mail_subject m = or_else (subject_ov (override_fields body))
                                 (content_subject (legacy_content body))
           \<and> mail_html m = Some (or_else (htmlBody_ov (override_fields body))
                                    (content_html (legacy_content body)))
           \<and> mail_text m = Some (or_else (textBody_ov (override_fields body))
                                    (content_text (legacy_content body)))
           \<and> next_log_id (logs w') = next_log_id (logs w) + 1
           \<and> (nodemailer_available E \<and> 1 \<le> RETRY_MAX_ATTEMPTS E \<longrightarrow> 0 < n)
           \<and> (\<forall>mid. 0 < n \<and> sendMail E n m = Inr mid \<longrightarrow>
                 res = Inr \<lparr>messageId = mid,
                            template_used = Some (or_else (templateSlug body) [],
                                                  version templateRecord)\<rparr>)
           \<and> (\<forall>x. res = Inl x \<longrightarrow>
                 x = Error ''Email service unavailable''
                 \<or> (\<exists>err. x = TransportError err) \<or> (\<exists>t. x = TypeError t))"
proof -
  let ?c = "(legacy_content body)\<lparr>fallback := True\<rparr>"
  let ?m = "\<lparr>mail_from = or_else (from_field body) (from_email tenant),
             mail_to = join_addresses (to_list (to_field body)),
             mail_cc = optional_list (copy_list (cc body)),
             mail_bcc = optional_list (copy_list (bcc body)),
             mail_replyTo = (if truthy_str (replyTo body) then replyTo body else None),
             mail_subject = override (subject_ov (override_fields body)) (content_subject ?c),
             mail_html = Some (override (htmlBody_ov (override_fields body)) (content_html ?c)),
             mail_text = Some (override (textBody_ov (override_fields body)) (content_text ?c))\<rparr>"
  let ?w0 = "w\<lparr>rstate := st'\<rparr>"
  obtain dres logId wb where d: "deliver E (tenant_ident tenant) ?m ?w0 = (dres, logId, wb)"
    by (cases "deliver E (tenant_ident tenant) ?m ?w0") auto
  have body_eq: "send_body E L now tmpl tn body w =
      (case dres of
         Inl e \<Rightarrow> (Inl e, logId, wb)
       | Inr mid \<Rightarrow> (Inr \<lparr>messageId = mid,
                            template_used = Some (or_else (templateSlug body) [],
                                                  version templateRecord)\<rparr>, logId, wb))"
    using tm td rcpt tn rs fallback_content [OF td(2) rf, of body] d
    by (simp add: send_body_def override_fields_def Let_def split: sum.splits)
  from deliver_run [OF d] obtain n where n:
    "sent_mail wb = sent_mail ?w0 @ replicate n ?m"
    "0 < n \<longrightarrow>
       (case sendMail E n ?m of
          Inr i \<Rightarrow> dres = Inr i
        | Inl err \<Rightarrow> dres = Inl (TransportError err)
            \<and> (RETRY_MAX_ATTEMPTS E \<le> int n \<or> \<not> shouldRetry E err))"
    "nodemailer_available E \<and> 1 \<le> RETRY_MAX_ATTEMPTS E \<longrightarrow> 0 < n"
    "next_log_id (logs wb) = next_log_id (logs ?w0) + 1"
    by blast
  have res: "res = (case dres of Inl e \<Rightarrow> Inl e
       | Inr mid \<Rightarrow> Inr \<lparr>messageId = mid,
                            template_used = Some (or_else (templateSlug body) [],
                                                  version templateRecord)\<rparr>)"
    and frame: "sent_mail w' = sent_mail wb" "next_log_id (logs w') = next_log_id (logs wb)"
    using run body_eq
    by (auto simp: sendEmail_def on_failure_def Let_def split: sum.splits option.splits)
  have err: "\<forall>x. dres = Inl x \<longrightarrow>
                 x = Error ''Email service unavailable''
                 \<or> (\<exists>err. x = TransportError err) \<or> (\<exists>t. x = TypeError t)"
    using d by (auto simp: deliver_def Let_def split: prod.splits if_splits option.splits)
  have ok: "\<forall>mid. 0 < n \<and> sendMail E n ?m = Inr mid \<longrightarrow>
                 res = Inr \<lparr>messageId = mid,
                            template_used = Some (or_else (templateSlug body) [],
                                                  version templateRecord)\<rparr>"
    using n(2) res by auto
  have errs: "\<forall>x. res = Inl x \<longrightarrow>
                 x = Error ''Email service unavailable''
                 \<or> (\<exists>err. x = TransportError err) \<or> (\<exists>t. x = TypeError t)"
    using err res by (auto split: sum.splits)
  show ?thesis
    using n(1,3,4) frame ok errs
    by (intro exI [of _ n] exI [of _ ?m]) (simp add: override_def)
qed




lemma retry_first_ok:
  assumes "f (Suc 0) m = Inr i"
  shows "send_with_retry (default_env f) m (Suc 0) w
     = (Some i, None, w\<lparr>sent_mail := sent_mail w @ [m]\<rparr>)"
  using assms by (simp add: send_with_retry.simps Let_def)

lemma sample_render_fails:
  "TemplateRenderer_renderTemplate failing_libs 0 \<lparr>cache = Map.empty, compiles = 0\<rparr>
      sample_template (JObj []) None
   = (Inl RenderFailed, \<lparr>cache = Map.empty, compiles = 1\<rparr>)"
  by (simp add: TemplateRenderer_renderTemplate_def eval_hash getCacheKey_def cache_get_def
      compileTemplate_def failing_libs_def sample_template_def Let_def)

lemma sample_resolves:
  "resolveTemplate [sample_template] ''1'' ''test-template'' None = Some sample_template"
  by (simp add: eval_sample)

lemma template_request_sel:
  "templateSlug template_request = Some ''test-template''"
  "templateData template_request = Some (JObj [])"
  "to_field template_request = Some (One ''ann@example.com'')"
  "from_field template_request = None" "replyTo template_request = None"
  "cc template_request = None" "bcc template_request = None"
  "version_field template_request = None" "overrides template_request = None"
  "subject_field template_request = None" "htmlBody template_request = None"
  "textBody template_request = None" "variables template_request = None"
  by (simp_all add: template_request_def)

lemma template_request_body:
  "send_body E failing_libs 0 [sample_template] (Some sample_tenant) template_request empty_world
     = (case deliver E ''1'' fallback_mail
               (empty_world\<lparr>rstate := \<lparr>cache = Map.empty, compiles = 1\<rparr>\<rparr>) of
          (Inl e, l, w') \<Rightarrow> (Inl e, l, w')
        | (Inr mid, l, w') \<Rightarrow>
            (Inr \<lparr>messageId = mid, template_used = Some (''test-template'', 1)\<rparr>, l, w'))"
proof -
  have st: "rstate empty_world = \<lparr>cache = Map.empty, compiles = 0\<rparr>"
    by (simp add: empty_world_def)
  have c: "legacy_content template_request
           = \<lparr>content_subject = ''Email'', content_html = [], content_text = [],
              rendered = False, fallback = False\<rparr>"
    by (simp add: legacy_content_def template_request_sel or_else_def truthy_str_def)
  have r: "renderEmailContent failing_libs 0 (rstate empty_world) Template_mode template_request
             (Some sample_template) (Some (JObj []))
           = (\<lparr>content_subject = ''Email'', content_html = [], content_text = [],
               rendered = False, fallback = True\<rparr>,
              \<lparr>cache = Map.empty, compiles = 1\<rparr>)"
    using sample_render_fails by (simp add: renderEmailContent_def st c)
  have v: "version sample_template = 1" by (simp add: sample_template_def)
  have t: "tenant_ident sample_tenant = ''1''" "from_email sample_tenant = ''noreply@example.com''"
    by (simp_all add: sample_tenant_def)
  show ?thesis
    using sample_resolves
    by (simp add: send_body_def template_request_sel r v t fallback_mail_def truthy_str_def
        truthy_addr_def or_else_def override_def to_list_def copy_list_def optional_list_def
        join_addresses_def)
      (simp add: template_request_sel or_else_def v split: prod.splits sum.splits)
qed

lemma send_template_request:
  "sendEmail (default_env (\<lambda>k m. Inr ''id-1'')) failing_libs 0 [sample_template]
       (Some sample_tenant) template_request empty_world
   = (Inr \<lparr>messageId = ''id-1'', template_used = Some (''test-template'', 1)\<rparr>,
      \<lparr>logs = \<lparr>log_rows = [\<lparr>log_id = 1, log_tenant = ''1'', to_address = ''ann@example.com'',
                              log_subject = ''Email'', status = Sent, error_message = None,
                              sent_at = True\<rparr>],
               open_txn = None, next_log_id = 2\<rparr>,
       rstate = \<lparr>cache = Map.empty, compiles = 1\<rparr>,
       sent_mail = [fallback_mail], sleeps = []\<rparr>)"
  by (simp add: sendEmail_def template_request_body)
    (simp add: eval_deliver retry_first_ok fallback_mail_def)

text \<open>
  Claim C1 as stated fails: the template request carries no subject, no \<open>htmlBody\<close>
  and no \<open>textBody\<close>, and the render of its template fails; yet the caller gets a
  success, one mail with the subject \<open>Email\<close> and empty bodies went to the transport,
  and the log holds a row marked sent.
\<close>

theorem template_without_raw_content_counterexample:
  "sendEmail (default_env (\<lambda>k m. Inr ''id-1'')) failing_libs 0 [sample_template]
       (Some sample_tenant) template_request empty_world
   = (Inr \<lparr>messageId = ''id-1'', template_used = Some (''test-template'', 1)\<rparr>,
      \<lparr>logs = \<lparr>log_rows = [\<lparr>log_id = 1, log_tenant = ''1'', to_address = ''ann@example.com'',
                              log_subject = ''Email'', status = Sent, error_message = None,
                              sent_at = True\<rparr>],
               open_txn = None, next_log_id = 2\<rparr>,
       rstate = \<lparr>cache = Map.empty, compiles = 1\<rparr>,
       sent_mail = [fallback_mail], sleeps = []\<rparr>)
   \<and> TemplateRenderer_renderTemplate failing_libs 0 (rstate empty_world)
        sample_template (JObj []) None
      = (Inl RenderFailed, \<lparr>cache = Map.empty, compiles = 1\<rparr>)
   \<and> subject_field template_request = None \<and> htmlBody template_request = None
   \<and> textBody template_request = None \<and> overrides template_request = None"
  using send_template_request sample_render_fails
  by (simp add: template_request_def empty_world_def)

text \<open>
  The theorem at the template request that also carries a subject and an \<open>htmlBody\<close>:
  the mail handed to the transport has that subject and that body.
\<close>

theorem template_render_failure_falls_back_witness:
  "TemplateRenderer_renderTemplate failing_libs 0 (rstate empty_world)
        sample_template (JObj []) None
      = (Inl RenderFailed, \<lparr>cache = Map.empty, compiles = 1\<rparr>)
   \<and> (\<exists>n m. sent_mail (snd (sendEmail (default_env (\<lambda>k m. Inr ''id-1'')) failing_libs 0
                 [sample_template] (Some sample_tenant) template_request_with_raw empty_world))
              = sent_mail empty_world @ replicate n m
          \<and> mail_subject m = ''Hello'' \<and> mail_html m = Some ''<p>Hi</p>''
          \<and> mail_text m = Some [] \<and> 0 < n)"
proof -
  let ?E = "default_env (\<lambda>k m. Inr ''id-1'')"
  let ?run = "sendEmail ?E failing_libs 0 [sample_template] (Some sample_tenant)
                template_request_with_raw empty_world"
  have rf: "TemplateRenderer_renderTemplate failing_libs 0 (rstate empty_world)
        sample_template (JObj []) None
      = (Inl RenderFailed, \<lparr>cache = Map.empty, compiles = 1\<rparr>)"
    using sample_render_fails by (simp add: empty_world_def)
  have h: "truthy_str (templateSlug template_request_with_raw)"
    "templateData template_request_with_raw = Some (JObj [])" "truthy (JObj [])"
    "truthy_addr (to_field template_request_with_raw)"
    "resolveTemplate [sample_template] (tenant_ident sample_tenant)
       (or_else (templateSlug template_request_with_raw) [])
       (version_field template_request_with_raw) = Some sample_template"
    using sample_resolves
    by (simp_all add: template_request_with_raw_def truthy_str_def truthy_addr_def
        sample_tenant_def or_else_def)
  have c: "content_subject (legacy_content template_request_with_raw) = ''Hello''"
    "content_html (legacy_content template_request_with_raw) = ''<p>Hi</p>''"
    "content_text (legacy_content template_request_with_raw) = []"
    "override_fields template_request_with_raw
       = \<lparr>subject_ov = None, htmlBody_ov = None, textBody_ov = None\<rparr>"
    by (simp_all add: legacy_content_def template_request_with_raw_def or_else_def
        truthy_str_def renderTemplate_def override_fields_def)
  have run: "?run = (fst ?run, snd ?run)" by simp
  from template_render_failure_falls_back [OF h(1,2,3,4) refl h(5) rf run]
  obtain n m where "sent_mail (snd ?run) = sent_mail empty_world @ replicate n m"
    and "mail_subject m = ''Hello''" "mail_html m = Some ''<p>Hi</p>''" "mail_text m = Some []"
    and "nodemailer_available ?E \<and> 1 \<le> RETRY_MAX_ATTEMPTS ?E \<longrightarrow> 0 < n"
    unfolding c by (auto simp: or_else_def)
  then have "\<exists>n m. sent_mail (snd ?run) = sent_mail empty_world @ replicate n m
          \<and> mail_subject m = ''Hello'' \<and> mail_html m = Some ''<p>Hi</p>''
          \<and> mail_text m = Some [] \<and> 0 < n"
    by auto
  with rf show ?thesis by (rule conjI)
qed


end
